theory Spec2Isabelle
  imports Main
begin

section \<open>Python values, rows and built-in operations\<close>

text \<open>
  The two notebooks read a CSV with \<^verbatim>\<open>pd.read_csv\<close> and walk it with
  \<^verbatim>\<open>df.iterrows()\<close>. A row is a pandas Series: a mapping from column labels to
  cells. A cell is a text, a boolean, an integer, a float, or the float NaN that pandas
  stores for a blank CSV field; \<^verbatim>\<open>None\<close> is the default of \<^verbatim>\<open>row.get\<close>.
  A text is a list of 8-bit characters, each read as the code point of that number
  (Latin-1). An integer cell comes from a 64-bit column.

  A float other than NaN (every filled cell of a numeric column that has a blank is
  one) is given by what the three built-ins the notebooks apply to a cell return on
  it: \<^verbatim>\<open>str(x)\<close>, \<^verbatim>\<open>int(x)\<close> (the truncation, or no value for an infinity, where
  \<^verbatim>\<open>int\<close> raises OverflowError) and \<^verbatim>\<open>bool(x)\<close>. Every float is such a triple;
  the statements below hold for all triples.
\<close>

record pyfloat =
  float_str :: string
  float_int :: "int option"
  float_bool :: bool

datatype pyval = PNone | PNaN | PFloat pyfloat | PBool bool | PInt int | PStr string

datatype py_error = KeyError | ValueError | TypeError | AttributeError | OverflowError

type_synonym row = "string \<rightharpoonup> pyval"

text \<open>\<^verbatim>\<open>row.get(key, default)\<close> and \<^verbatim>\<open>row[key]\<close> (which raises KeyError).\<close>

definition row_get :: "row \<Rightarrow> string \<Rightarrow> pyval \<Rightarrow> pyval" where
  "row_get r key dflt = (case r key of None \<Rightarrow> dflt | Some v \<Rightarrow> v)"

definition row_item :: "row \<Rightarrow> string \<Rightarrow> py_error + pyval" where
  "row_item r key = (case r key of None \<Rightarrow> Inl KeyError | Some v \<Rightarrow> Inr v)"

text \<open>Truth value of a Python object; NaN is a non-zero float, hence true.\<close>

fun truthy :: "pyval \<Rightarrow> bool" where
  "truthy PNone = False"
| "truthy PNaN = True"
| "truthy (PFloat x) = float_bool x"
| "truthy (PBool b) = b"
| "truthy (PInt i) = (i \<noteq> 0)"
| "truthy (PStr s) = (s \<noteq> [])"

text \<open>\<^verbatim>\<open>a or b\<close>.\<close>

definition py_or :: "pyval \<Rightarrow> pyval \<Rightarrow> pyval" where
  "py_or a b = (if truthy a then a else b)"

text \<open>\<^verbatim>\<open>pd.isna\<close> on a scalar.\<close>

fun pd_isna :: "pyval \<Rightarrow> bool" where
  "pd_isna PNone = True"
| "pd_isna PNaN = True"
| "pd_isna _ = False"

subsection \<open>Texts\<close>

definition digit_char :: "nat \<Rightarrow> char" where
  "digit_char n = char_of (48 + n)"

function str_nat :: "nat \<Rightarrow> string" where
  "str_nat n = (if n < 10 then [digit_char n] else str_nat (n div 10) @ [digit_char (n mod 10)])"
  by pat_completeness auto
termination
  by (relation "measure id") auto

declare str_nat.simps [simp del]

definition str_int :: "int \<Rightarrow> string" where
  "str_int i = (if i < 0 then CHR ''-'' # str_nat (nat (- i)) else str_nat (nat i))"

text \<open>\<^verbatim>\<open>str(v)\<close>, which is also what an f-string field \<^verbatim>\<open>{v}\<close> inserts.\<close>

fun py_str :: "pyval \<Rightarrow> string" where
  "py_str PNone = ''None''"
| "py_str PNaN = ''nan''"
| "py_str (PFloat x) = float_str x"
| "py_str (PBool b) = (if b then ''True'' else ''False'')"
| "py_str (PInt i) = str_int i"
| "py_str (PStr s) = s"

text \<open>The code points below 256 for which \<^verbatim>\<open>str.isspace\<close> holds.\<close>

definition is_space :: "char \<Rightarrow> bool" where
  "is_space c = (c \<in> set [CHR 0x09, CHR 0x0A, CHR 0x0B, CHR 0x0C, CHR 0x0D,
                           CHR 0x1C, CHR 0x1D, CHR 0x1E, CHR 0x1F, CHR 0x20,
                           CHR 0x85, CHR 0xA0])"

text \<open>\<^verbatim>\<open>s.strip()\<close>.\<close>

definition py_strip :: "string \<Rightarrow> string" where
  "py_strip s = rev (dropWhile is_space (rev (dropWhile is_space s)))"

text \<open>\<^verbatim>\<open>s.lower()\<close> on code points below 256.\<close>

definition lower_char :: "char \<Rightarrow> char" where
  "lower_char c =
     (let n = (of_char c :: nat)
      in if (65 \<le> n \<and> n \<le> 90) \<or> (192 \<le> n \<and> n \<le> 222 \<and> n \<noteq> 215)
         then char_of (n + 32) else c)"

definition py_lower :: "string \<Rightarrow> string" where
  "py_lower s = map lower_char s"

text \<open>\<^verbatim>\<open>s.split(sep)\<close> for a one-character separator: never an empty list.\<close>

fun py_split :: "char \<Rightarrow> string \<Rightarrow> string list" where
  "py_split sep [] = [[]]"
| "py_split sep (c # cs) =
     (if c = sep then [] # py_split sep cs
      else (let r = py_split sep cs in (c # hd r) # tl r))"

text \<open>\<^verbatim>\<open>s.endswith(suffix)\<close>.\<close>

definition endswith :: "string \<Rightarrow> string \<Rightarrow> bool" where
  "endswith s suffix = (length suffix \<le> length s \<and> drop (length s - length suffix) s = suffix)"

text \<open>
  \<^verbatim>\<open>int(v)\<close>. On a text, \<^verbatim>\<open>int\<close> skips white space at both ends, takes one
  optional sign and then a run of decimal digits in which single underscores may
  separate digits; anything else raises ValueError, and so does a run of more digits
  than the interpreter's limit \<^verbatim>\<open>sys.int_max_str_digits\<close> (4300 unless changed).
  The white space of \<^verbatim>\<open>int\<close> is narrower than that of \<^verbatim>\<open>str.strip\<close>: the
  separators 0x1C to 0x1F are not skipped. \<^verbatim>\<open>int(None)\<close> raises TypeError,
  \<^verbatim>\<open>int(float('nan'))\<close> ValueError and \<^verbatim>\<open>int\<close> of an infinity OverflowError.
\<close>

definition is_int_space :: "char \<Rightarrow> bool" where
  "is_int_space c = (c \<in> set [CHR 0x09, CHR 0x0A, CHR 0x0B, CHR 0x0C, CHR 0x0D, CHR 0x20,
                               CHR 0x85, CHR 0xA0])"

definition int_max_str_digits :: nat where
  "int_max_str_digits = 4300"

definition is_digit :: "char \<Rightarrow> bool" where
  "is_digit c = (let n = (of_char c :: nat) in 48 \<le> n \<and> n \<le> 57)"

definition digit_val :: "char \<Rightarrow> nat" where
  "digit_val c = of_char c - 48"

fun int_digits :: "nat \<Rightarrow> string \<Rightarrow> nat option" where
  "int_digits acc [] = Some acc"
| "int_digits acc (c # cs) =
     (if is_digit c then int_digits (acc * 10 + digit_val c) cs
      else if c = CHR ''_'' then
        (case cs of
           [] \<Rightarrow> None
         | d # ds \<Rightarrow> if is_digit d then int_digits (acc * 10 + digit_val d) ds else None)
      else None)"

definition int_literal :: "string \<Rightarrow> nat option" where
  "int_literal s =
     (case s of
        [] \<Rightarrow> None
      | c # cs \<Rightarrow> if is_digit c then int_digits (digit_val c) cs else None)"

definition int_of_text :: "string \<Rightarrow> py_error + int" where
  "int_of_text s =
     (let t = rev (dropWhile is_int_space (rev (dropWhile is_int_space s)));
          neg = (case t of [] \<Rightarrow> False | c # _ \<Rightarrow> c = CHR ''-'');
          body = (case t of [] \<Rightarrow> [] | c # cs \<Rightarrow> if c = CHR ''-'' \<or> c = CHR ''+'' then cs else t)
      in case int_literal body of
           None \<Rightarrow> Inl ValueError
         | Some n \<Rightarrow>
             if length (filter is_digit body) > int_max_str_digits then Inl ValueError
             else Inr (if neg then - int n else int n))"

fun py_int :: "pyval \<Rightarrow> py_error + int" where
  "py_int PNone = Inl TypeError"
| "py_int PNaN = Inl ValueError"
| "py_int (PFloat x) = (case float_int x of None \<Rightarrow> Inl OverflowError | Some i \<Rightarrow> Inr i)"
| "py_int (PBool b) = Inr (if b then 1 else 0)"
| "py_int (PInt i) = Inr i"
| "py_int (PStr s) = int_of_text s"

section \<open>Helpers shared by both notebooks\<close>

text \<open>
  \<^verbatim>\<open>bool_norm\<close>, \<^verbatim>\<open>ref\<close> and \<^verbatim>\<open>common_header\<close> have the same text in the
  single-file notebook and in the bundle notebook, so each is modelled once.
\<close>

definition bool_norm :: "pyval \<Rightarrow> bool" where
  "bool_norm val =
     (case val of
        PBool b \<Rightarrow> b
      | _ \<Rightarrow> py_lower (py_strip (py_str val)) = ''checked'')"

text \<open>
  The object under \<^verbatim>\<open>$ref\<close>: the key \<^verbatim>\<open>type_name\<close> is always there, the keys
  \<^verbatim>\<open>schema\<close> and \<^verbatim>\<open>space\<close> are there when the field is not \<open>None\<close>.
\<close>

record ref_obj =
  ref_type_name :: pyval
  ref_schema :: "pyval option"
  ref_space :: "pyval option"

datatype reference = DollarRef (unref: ref_obj)

definition ref :: "pyval \<Rightarrow> pyval \<Rightarrow> pyval \<Rightarrow> reference" where
  "ref type_name schema space =
     (let obj = \<lparr>ref_type_name = type_name, ref_schema = None, ref_space = None\<rparr>;
          obj = (if truthy schema then obj\<lparr>ref_schema := Some schema\<rparr> else obj);
          obj = (if truthy space then obj\<lparr>ref_space := Some space\<rparr> else obj)
      in DollarRef obj)"

text \<open>The header that \<^verbatim>\<open>common_header\<close> returns; \<^verbatim>\<open>row["TypeKind"]\<close> may raise.\<close>

record header =
  descriptor_name :: string
  label :: pyval
  description :: pyval
  is_dependent :: bool
  is_value_type :: bool
  described_by :: reference
  is_subtype_of :: pyval

definition common_header :: "row \<Rightarrow> string \<Rightarrow> py_error + header" where
  "common_header r dname =
     (case row_item r ''TypeKind'' of
        Inl e \<Rightarrow> Inl e
      | Inr kind \<Rightarrow>
          Inr \<lparr>descriptor_name = dname,
               label = py_or (row_get r ''Label (Human Readable)'' (PStr [])) (PStr []),
               description = py_or (row_get r ''Description'' (PStr [])) (PStr []),
               is_dependent = bool_norm (row_get r ''Is Dependent'' (PBool False)),
               is_value_type = bool_norm (row_get r ''Is ValueType'' (PBool False)),
               described_by = ref kind PNone PNone,
               is_subtype_of = PNone\<rparr>)"

text \<open>
  The comprehension \<^verbatim>\<open>[p.strip() for p in s.split(",") if p.strip()]\<close> that both
  notebooks apply to every list-valued cell.
\<close>

definition comma_list :: "string \<Rightarrow> string list" where
  "comma_list s = [py_strip p. p \<leftarrow> py_split CHR '','' s, py_strip p \<noteq> []]"

text \<open>\<^verbatim>\<open>v.strip()\<close> on a cell: only a text has the method.\<close>

fun strip_method :: "pyval \<Rightarrow> py_error + string" where
  "strip_method (PStr s) = Inr (py_strip s)"
| "strip_method _ = Inl AttributeError"

text \<open>A \<^verbatim>\<open>for\<close> loop that appends one result per item and stops at the first raise.\<close>

fun collect :: "('a \<Rightarrow> py_error + 'b) \<Rightarrow> 'a list \<Rightarrow> py_error + 'b list" where
  "collect f [] = Inr []"
| "collect f (x # xs) =
     (case f x of
        Inl e \<Rightarrow> Inl e
      | Inr y \<Rightarrow> (case collect f xs of Inl e \<Rightarrow> Inl e | Inr ys \<Rightarrow> Inr (y # ys)))"

section \<open>Descriptors\<close>

text \<open>
  A descriptor is the dictionary \<^verbatim>\<open>{type_kind, type_name, described_by, spec}\<close>;
  its \<^verbatim>\<open>spec\<close> is the header extended with the keys of its kind. Fields that hold
  \<^verbatim>\<open>ref(x) if x else None\<close> are options, \<open>None\<close> standing for Python's. The order
  of the keys in a dictionary is not modelled.
\<close>

record rel_fields =
  relationship_name :: pyval
  source_owns_relationship :: bool
  deletion_semantic :: pyval
  load_links_immediate :: bool
  load_holons_immediate :: bool
  has_inverse :: "reference option"
  target_holon_type :: reference
  target_semantic :: pyval
  target_min_cardinality :: int
  target_max_cardinality :: int

datatype spec =
    HolonSpec (spec_header: header) (properties: "string list")
      (key_properties: "string list") (spec_type_name: pyval)
  | PropertySpec (spec_header: header) (property_name: pyval) (value_type: "reference option")
  | RelationshipSpec (spec_header: header) (spec_rel: rel_fields)

record descriptor =
  type_kind :: string
  type_name :: pyval
  wrapper_described_by :: reference
  spec :: spec

section \<open>The bundle notebook's converters\<close>

definition default_schema_type_name :: string where
  "default_schema_type_name = ''CatalistSchema''"

definition TYPEKINDS :: "string list" where
  "TYPEKINDS = [''HolonType'', ''PropertyType'', ''ValueType'',
                ''EnumType'', ''EnumVariantType'', ''RelationshipType'']"

definition row_to_holontype_bundle :: "row \<Rightarrow> py_error + descriptor" where
  "row_to_holontype_bundle r =
     (case row_item r ''Type Name'' of
        Inl e \<Rightarrow> Inl e
      | Inr name \<Rightarrow>
          (case common_header r (py_str name @ ''Descriptor'') of
             Inl e \<Rightarrow> Inl e
           | Inr hdr \<Rightarrow>
               (let raw = row_get r ''MAP PROPERTIES PropertyTypes'' (PStr []);
                    props = (if pd_isna raw then [] else comma_list (py_str raw));
                    raw = row_get r ''MAP KEY_PROPERTIES PropertyTypes'' (PStr []);
                    keyp = (if pd_isna raw then [] else comma_list (py_str raw))
                in Inr \<lparr>type_kind = ''HolonType'', type_name = name,
                        wrapper_described_by = ref (PStr ''HolonType'') PNone PNone,
                        spec = HolonSpec hdr props keyp name\<rparr>)))"

definition row_to_propertytype_bundle :: "row \<Rightarrow> py_error + descriptor" where
  "row_to_propertytype_bundle r =
     (case row_item r ''Type Name'' of
        Inl e \<Rightarrow> Inl e
      | Inr name \<Rightarrow>
          (case common_header r (py_str name @ ''_descriptor'') of
             Inl e \<Rightarrow> Inl e
           | Inr hdr \<Rightarrow>
               (case strip_method (row_get r ''ValueType (VALUE_TYPE_FOR)'' (PStr [])) of
                  Inl e \<Rightarrow> Inl e
                | Inr ref_val \<Rightarrow>
                    Inr \<lparr>type_kind = ''PropertyType'', type_name = name,
                         wrapper_described_by = ref (PStr ''PropertyType'') PNone PNone,
                         spec = PropertySpec hdr name
                                  (if ref_val \<noteq> [] then Some (ref (PStr ref_val) PNone PNone)
                                   else None)\<rparr>)))"

text \<open>
  The body of the loop over \<^verbatim>\<open>itertools.product(froms, tos)\<close>: the descriptor of
  one edge, from the values normalised before the loop.
\<close>

definition relationship_edge_bundle ::
  "row \<Rightarrow> pyval \<Rightarrow> bool \<Rightarrow> pyval \<Rightarrow> bool \<Rightarrow> bool \<Rightarrow> pyval \<Rightarrow> pyval \<Rightarrow> int \<Rightarrow> int
   \<Rightarrow> string \<times> string \<Rightarrow> py_error + descriptor" where
  "relationship_edge_bundle r rel source_owns deletion_sem load_links load_holons has_inv tsem tmin tmax =
     (\<lambda>(src, tgt).
        (let tname = src @ ''-'' @ py_str rel @ ''->'' @ tgt
         in case common_header r (tname @ ''Descriptor'') of
              Inl e \<Rightarrow> Inl e
            | Inr hdr \<Rightarrow>
                Inr \<lparr>type_kind = ''RelationshipType'',
                     type_name = PStr tname,
                     wrapper_described_by = ref (PStr ''RelationshipType'') PNone PNone,
                     spec = RelationshipSpec hdr
                       \<lparr>relationship_name = rel,
                        source_owns_relationship = source_owns,
                        deletion_semantic = deletion_sem,
                        load_links_immediate = load_links,
                        load_holons_immediate = load_holons,
                        has_inverse =
                          (if truthy has_inv then Some (ref has_inv PNone PNone) else None),
                        target_holon_type = ref (PStr tgt) (PStr default_schema_type_name) PNone,
                        target_semantic = tsem,
                        target_min_cardinality = tmin,
                        target_max_cardinality = tmax\<rparr>\<rparr>))"

definition row_to_relationshiptype_bundle :: "row \<Rightarrow> py_error + descriptor list" where
  "row_to_relationshiptype_bundle r =
     (case row_item r ''Type Name'' of
        Inl e \<Rightarrow> Inl e
      | Inr rel \<Rightarrow>
          (let source_owns = bool_norm (row_get r ''Source Owns Relationship'' (PBool False));
               deletion_sem = row_get r ''Deletion Semantic'' PNone;
               deletion_sem = (if pd_isna deletion_sem \<or> py_strip (py_str deletion_sem) = []
                               then PNone else deletion_sem);
               load_links = bool_norm (row_get r ''Load Links Immediate'' (PBool False));
               load_holons = bool_norm (row_get r ''Load Holons Immediate'' (PBool False));
               has_inv = py_or (row_get r ''Has Inverse'' PNone) PNone
           in case py_int (py_or (row_get r ''Target Min Cardinality'' PNone) (PInt 0)) of
                Inl e \<Rightarrow> Inl e
              | Inr tmin \<Rightarrow>
                  (case py_int (py_or (row_get r ''Target Max Cardinality'' PNone) (PInt 1)) of
                     Inl e \<Rightarrow> Inl e
                   | Inr tmax \<Rightarrow>
                       (let tsem = row_get r ''Target Semantic'' (PStr ''Set'');
                            froms = comma_list (py_str (row_get r ''Relationship From'' (PStr [])));
                            tos = comma_list (py_str (row_get r ''Relationship To'' (PStr [])))
                        in collect
                             (relationship_edge_bundle r rel source_owns deletion_sem load_links
                                load_holons has_inv tsem tmin tmax)
                             (List.product froms tos)))))"

text \<open>
  The row-dispatch loop: \<^verbatim>\<open>convert_row_bundle\<close> is the body of the loop for one
  row (what it appends to \<^verbatim>\<open>all_desc\<close>), \<^verbatim>\<open>all_desc_from\<close> the loop itself.
\<close>

definition convert_row_bundle :: "row \<Rightarrow> py_error + descriptor list" where
  "convert_row_bundle r =
     (case row_item r ''TypeKind'' of
        Inl e \<Rightarrow> Inl e
      | Inr kind \<Rightarrow>
          if kind \<notin> set (map PStr TYPEKINDS) then Inr []
          else if kind = PStr ''HolonType'' then
            (case row_to_holontype_bundle r of Inl e \<Rightarrow> Inl e | Inr d \<Rightarrow> Inr [d])
          else if kind = PStr ''PropertyType'' then
            (case row_to_propertytype_bundle r of Inl e \<Rightarrow> Inl e | Inr d \<Rightarrow> Inr [d])
          else if kind = PStr ''RelationshipType'' then row_to_relationshiptype_bundle r
          else Inr [])"

fun all_desc_from :: "descriptor list \<Rightarrow> row list \<Rightarrow> py_error + descriptor list" where
  "all_desc_from acc [] = Inr acc"
| "all_desc_from acc (r # rs) =
     (case convert_row_bundle r of
        Inl e \<Rightarrow> Inl e
      | Inr ds \<Rightarrow> all_desc_from (acc @ ds) rs)"

definition all_desc :: "row list \<Rightarrow> py_error + descriptor list" where
  "all_desc rows = all_desc_from [] rows"

section \<open>The single-file notebook's converters\<close>

definition SCHEMA_INFO_type_name :: string where
  "SCHEMA_INFO_type_name = ''CatalistSchema''"

definition TYPEKINDS_TO_EXPORT :: "string list" where
  "TYPEKINDS_TO_EXPORT = [''HolonType'', ''PropertyType'', ''ValueType'',
                          ''EnumType'', ''EnumVariantType'', ''RelationshipType'']"

definition row_to_holontype_single :: "row \<Rightarrow> py_error + descriptor" where
  "row_to_holontype_single r =
     (case row_item r ''Type Name'' of
        Inl e \<Rightarrow> Inl e
      | Inr tname \<Rightarrow>
          (case common_header r (py_str tname @ ''Descriptor'') of
             Inl e \<Rightarrow> Inl e
           | Inr hdr \<Rightarrow>
               (let props = row_get r ''MAP PROPERTIES PropertyTypes'' (PStr []);
                    props_list = (if pd_isna props then [] else comma_list (py_str props));
                    keyp = row_get r ''MAP KEY_PROPERTIES PropertyTypes'' (PStr []);
                    keyp_list = (if pd_isna keyp then [] else comma_list (py_str keyp))
                in Inr \<lparr>type_kind = ''Holon'', type_name = tname,
                        wrapper_described_by = ref (PStr ''HolonType'') PNone PNone,
                        spec = HolonSpec hdr props_list keyp_list tname\<rparr>)))"

definition row_to_propertytype_single :: "row \<Rightarrow> py_error + descriptor" where
  "row_to_propertytype_single r =
     (case row_item r ''Type Name'' of
        Inl e \<Rightarrow> Inl e
      | Inr tname \<Rightarrow>
          (case common_header r (py_str tname @ ''_descriptor'') of
             Inl e \<Rightarrow> Inl e
           | Inr hdr \<Rightarrow>
               (case strip_method (row_get r ''ValueType (VALUE_TYPE_FOR)'' (PStr [])) of
                  Inl e \<Rightarrow> Inl e
                | Inr stripped \<Rightarrow>
                    Inr \<lparr>type_kind = ''Property'', type_name = tname,
                         wrapper_described_by = ref (PStr ''PropertyType'') PNone PNone,
                         spec = PropertySpec hdr tname
                                  (Some (ref (PStr stripped) PNone PNone))\<rparr>)))"

text \<open>
  The body of the loop over \<^verbatim>\<open>itertools.product(froms, tos)\<close>: the descriptor of
  one edge, from the values normalised before the loop.
\<close>

definition relationship_edge_single ::
  "row \<Rightarrow> pyval \<Rightarrow> bool \<Rightarrow> pyval \<Rightarrow> bool \<Rightarrow> bool \<Rightarrow> pyval \<Rightarrow> pyval \<Rightarrow> int \<Rightarrow> int
   \<Rightarrow> string \<times> string \<Rightarrow> py_error + descriptor" where
  "relationship_edge_single r rel_name source_owns deletion_sem load_links load_holons has_inverse_cell target_sem target_min target_max =
     (\<lambda>(src, tgt).
        (let tname = src @ ''-'' @ py_str rel_name @ ''->'' @ tgt
         in case common_header r (tname @ ''Descriptor'') of
              Inl e \<Rightarrow> Inl e
            | Inr hdr \<Rightarrow>
                Inr \<lparr>type_kind = ''Relationship'',
                     type_name = PStr tname,
                     wrapper_described_by = ref (PStr ''RelationshipType'') PNone PNone,
                     spec = RelationshipSpec hdr
                       \<lparr>relationship_name = rel_name,
                        source_owns_relationship = source_owns,
                        deletion_semantic = deletion_sem,
                        load_links_immediate = load_links,
                        load_holons_immediate = load_holons,
                        has_inverse =
                          (if truthy has_inverse_cell then Some (ref has_inverse_cell PNone PNone) else None),
                        target_holon_type = ref (PStr tgt) (PStr SCHEMA_INFO_type_name) PNone,
                        target_semantic = target_sem,
                        target_min_cardinality = target_min,
                        target_max_cardinality = target_max\<rparr>\<rparr>))"

definition row_to_relationshiptype_single :: "row \<Rightarrow> py_error + descriptor list" where
  "row_to_relationshiptype_single r =
     (case row_item r ''Type Name'' of
        Inl e \<Rightarrow> Inl e
      | Inr rel_name \<Rightarrow>
          (let source_owns = bool_norm (row_get r ''Source Owns Relationship'' (PBool False));
               deletion_sem = row_get r ''Deletion Semantic'' PNone;
               deletion_sem = (if pd_isna deletion_sem \<or> py_strip (py_str deletion_sem) = []
                               then PNone else deletion_sem);
               load_links = bool_norm (row_get r ''Load Links Immediate'' (PBool False));
               load_holons = bool_norm (row_get r ''Load Holons Immediate'' (PBool False));
               has_inverse_cell = py_or (row_get r ''Has Inverse'' (PStr [])) PNone
           in case py_int (py_or (row_get r ''Target Min Cardinality'' PNone) (PInt 0)) of
                Inl e \<Rightarrow> Inl e
              | Inr target_min \<Rightarrow>
                  (case py_int (py_or (row_get r ''Target Max Cardinality'' PNone) (PInt 1)) of
                     Inl e \<Rightarrow> Inl e
                   | Inr target_max \<Rightarrow>
                       (let target_sem = row_get r ''Target Semantic'' (PStr ''Set'');
                            froms = comma_list (py_str (row_get r ''Relationship From'' (PStr [])));
                            tos = comma_list (py_str (row_get r ''Relationship To'' (PStr [])))
                        in collect
                             (relationship_edge_single r rel_name source_owns deletion_sem load_links
                                load_holons has_inverse_cell target_sem target_min target_max)
                             (List.product froms tos)))))"

definition convert_row_single :: "row \<Rightarrow> py_error + descriptor list" where
  "convert_row_single r =
     (case row_item r ''TypeKind'' of
        Inl e \<Rightarrow> Inl e
      | Inr kind \<Rightarrow>
          if kind \<notin> set (map PStr TYPEKINDS_TO_EXPORT) then Inr []
          else if kind = PStr ''HolonType'' then
            (case row_to_holontype_single r of Inl e \<Rightarrow> Inl e | Inr d \<Rightarrow> Inr [d])
          else if kind = PStr ''PropertyType'' then
            (case row_to_propertytype_single r of Inl e \<Rightarrow> Inl e | Inr d \<Rightarrow> Inr [d])
          else if kind = PStr ''RelationshipType'' then row_to_relationshiptype_single r
          else Inr [])"

fun descriptors_from :: "descriptor list \<Rightarrow> row list \<Rightarrow> py_error + descriptor list" where
  "descriptors_from acc [] = Inr acc"
| "descriptors_from acc (r # rs) =
     (case convert_row_single r of
        Inl e \<Rightarrow> Inl e
      | Inr ds \<Rightarrow> descriptors_from (acc @ ds) rs)"

definition descriptors :: "row list \<Rightarrow> py_error + descriptor list" where
  "descriptors rows = descriptors_from [] rows"

section \<open>The bundle: buckets, files and manifest\<close>

text \<open>
  \<^verbatim>\<open>descriptor_buckets\<close> is a dictionary from \<^verbatim>\<open>type_kind\<close> to a list, kept in
  insertion order. The output directory is a list of named files in listing order;
  the order a real file system lists them in is not fixed, and no statement below
  depends on it. A file holds what \<^verbatim>\<open>json.dump\<close> was given.
\<close>

type_synonym buckets = "(string \<times> descriptor list) list"

fun setdefault_append :: "buckets \<Rightarrow> string \<Rightarrow> descriptor \<Rightarrow> buckets" where
  "setdefault_append [] k d = [(k, [d])]"
| "setdefault_append ((k', ds) # bs) k d =
     (if k' = k then (k', ds @ [d]) # bs else (k', ds) # setdefault_append bs k d)"

definition descriptor_buckets :: "descriptor list \<Rightarrow> buckets" where
  "descriptor_buckets ds = foldl (\<lambda>b d. setdefault_append b (type_kind d) d) [] ds"

record manifest =
  schema_type_name :: string
  schema_described_by :: reference
  schema_name :: string
  schema_description :: string
  type_files :: "string list"

datatype file_content = BucketFile "descriptor list" | ManifestFile manifest

type_synonym directory = "(string \<times> file_content) list"

text \<open>\<^verbatim>\<open>open(name, 'w')\<close> followed by \<^verbatim>\<open>json.dump\<close>: create or overwrite.\<close>

fun write_file :: "directory \<Rightarrow> string \<Rightarrow> file_content \<Rightarrow> directory" where
  "write_file [] name c = [(name, c)]"
| "write_file ((n, c') # fs) name c =
     (if n = name then (n, c) # fs else (n, c') # write_file fs name c)"

definition bucket_file_name :: "string \<Rightarrow> string" where
  "bucket_file_name kind = py_lower kind @ ''s.json''"

definition write_buckets :: "directory \<Rightarrow> buckets \<Rightarrow> directory" where
  "write_buckets out_dir bs =
     foldl (\<lambda>dir (kind, items). write_file dir (bucket_file_name kind) (BucketFile items)) out_dir bs"

text \<open>\<^verbatim>\<open>[f.name for f in OUT_DIR.glob("*.json") if f.name != "schema.json"]\<close>.\<close>

definition list_type_files :: "directory \<Rightarrow> string list" where
  "list_type_files dir = [n. n \<leftarrow> map fst dir, endswith n ''.json'', n \<noteq> ''schema.json'']"

definition build_manifest :: "directory \<Rightarrow> manifest" where
  "build_manifest dir =
     \<lparr>schema_type_name = default_schema_type_name,
      schema_described_by = ref (PStr ''SchemaType'') (PStr ''CoreSchema'') PNone,
      schema_name = ''Catalist 2.5 Schema'',
      schema_description = ''Types generated from Catalist Airtable export'',
      type_files = list_type_files dir\<rparr>"

text \<open>Cells 5 and 6 of the bundle notebook, run on the rows of the table.\<close>

definition run_bundle :: "directory \<Rightarrow> row list \<Rightarrow> py_error + directory" where
  "run_bundle out_dir rows =
     (case all_desc rows of
        Inl e \<Rightarrow> Inl e
      | Inr ds \<Rightarrow>
          (let dir = write_buckets out_dir (descriptor_buckets ds)
           in Inr (write_file dir ''schema.json'' (ManifestFile (build_manifest dir)))))"

section \<open>Locals of the relationship converter, the specification's lists, example rows\<close>

text \<open>
  The values of the locals \<^verbatim>\<open>froms\<close> and \<^verbatim>\<open>tos\<close> of
  \<^verbatim>\<open>row_to_relationshiptype\<close> (the same expressions in both notebooks), and the
  names \<^verbatim>\<open>f"{src}-{rel}->{tgt}"\<close> over \<^verbatim>\<open>itertools.product(froms, tos)\<close>.
  They are the code's own parse: a blank (NaN) cell gives the one token ``nan''.
\<close>

definition relationship_froms :: "row \<Rightarrow> string list" where
  "relationship_froms r = comma_list (py_str (row_get r ''Relationship From'' (PStr [])))"

definition relationship_tos :: "row \<Rightarrow> string list" where
  "relationship_tos r = comma_list (py_str (row_get r ''Relationship To'' (PStr [])))"

definition product_names :: "row \<Rightarrow> pyval list" where
  "product_names r =
     [PStr (src @ ''-'' @ py_str (row_get r ''Type Name'' PNone) @ ''->'' @ tgt).
        src \<leftarrow> relationship_froms r, tgt \<leftarrow> relationship_tos r]"

text \<open>
  The list the specification gives a list-valued cell, written from its words: a
  missing cell (an absent column, or a blank field, which pandas marks with NaN) is the
  empty list; otherwise the cell's text is split on commas, each token is trimmed,
  and the empty tokens are discarded, the order kept.
\<close>

definition parsed_list :: "pyval option \<Rightarrow> string list" where
  "parsed_list cell =
     (case cell of
        None \<Rightarrow> []
      | Some v \<Rightarrow>
          if v = PNaN \<or> v = PNone then []
          else filter (\<lambda>t. t \<noteq> []) (map py_strip (py_split CHR '','' (py_str v))))"

text \<open>Both cardinality cells, after \<^verbatim>\<open>or\<close>-defaulting, are accepted by \<^verbatim>\<open>int\<close>.\<close>

definition cardinalities_convert :: "row \<Rightarrow> bool" where
  "cardinalities_convert r =
     (\<not> isl (py_int (py_or (row_get r ''Target Min Cardinality'' PNone) (PInt 0)))
      \<and> \<not> isl (py_int (py_or (row_get r ''Target Max Cardinality'' PNone) (PInt 1))))"

text \<open>The relationship row of the specification's example, with only these columns.\<close>

definition member_of_row :: row where
  "member_of_row = map_of
     [(''Type Name'', PStr ''MEMBER_OF''), (''TypeKind'', PStr ''RelationshipType''),
      (''Relationship From'', PStr ''Person, Volunteer''), (''Relationship To'', PStr ''Team'')]"

text \<open>The same row with a to-list cell that holds separators only.\<close>

definition no_target_row :: row where
  "no_target_row = map_of
     [(''Type Name'', PStr ''MEMBER_OF''), (''TypeKind'', PStr ''RelationshipType''),
      (''Relationship From'', PStr ''Person, Volunteer''), (''Relationship To'', PStr '' , '')]"

text \<open>
  Rows with blank cells. A blank field of the CSV is the float NaN in the row; a column
  the table does not have is a key the row does not have.
\<close>

definition blank_cardinality_row :: row where
  "blank_cardinality_row = map_of
     [(''Type Name'', PStr ''MEMBER_OF''), (''TypeKind'', PStr ''RelationshipType''),
      (''Relationship From'', PStr ''Person, Volunteer''), (''Relationship To'', PStr ''Team''),
      (''Target Min Cardinality'', PNaN), (''Target Max Cardinality'', PNaN),
      (''Target Semantic'', PNaN)]"

definition blank_semantic_row :: row where
  "blank_semantic_row = map_of
     [(''Type Name'', PStr ''MEMBER_OF''), (''TypeKind'', PStr ''RelationshipType''),
      (''Relationship From'', PStr ''Person, Volunteer''), (''Relationship To'', PStr ''Team''),
      (''Target Semantic'', PNaN)]"

definition color_row :: row where
  "color_row = map_of [(''Type Name'', PStr ''Color''), (''TypeKind'', PStr ''PropertyType'')]"

definition spaces_value_row :: row where
  "spaces_value_row = map_of
     [(''Type Name'', PStr ''Color''), (''TypeKind'', PStr ''PropertyType''),
      (''ValueType (VALUE_TYPE_FOR)'', PStr ''  '')]"

definition blank_value_row :: row where
  "blank_value_row = map_of
     [(''Type Name'', PStr ''Color''), (''TypeKind'', PStr ''PropertyType''),
      (''ValueType (VALUE_TYPE_FOR)'', PNaN)]"

definition blank_to_row :: row where
  "blank_to_row = map_of
     [(''Type Name'', PStr ''MEMBER_OF''), (''TypeKind'', PStr ''RelationshipType''),
      (''Relationship From'', PStr ''Person, Volunteer''), (''Relationship To'', PNaN)]"

definition blank_inverse_row :: row where
  "blank_inverse_row = map_of
     [(''Type Name'', PStr ''MEMBER_OF''), (''TypeKind'', PStr ''RelationshipType''),
      (''Relationship From'', PStr ''Person, Volunteer''), (''Relationship To'', PStr ''Team''),
      (''Has Inverse'', PNaN)]"

definition blank_label_row :: row where
  "blank_label_row = map_of
     [(''Type Name'', PStr ''Widget''), (''TypeKind'', PStr ''HolonType''),
      (''Label (Human Readable)'', PNaN), (''Description'', PNaN)]"

text \<open>Rows of each supported kind and one of a kind outside the export list.\<close>

definition widget_row :: row where
  "widget_row = map_of
     [(''Type Name'', PStr ''Widget''), (''TypeKind'', PStr ''HolonType''),
      (''MAP PROPERTIES PropertyTypes'', PStr ''Color, Size''),
      (''MAP KEY_PROPERTIES PropertyTypes'', PStr ''Color'')]"

definition string_value_row :: row where
  "string_value_row = map_of
     [(''Type Name'', PStr ''Color''), (''TypeKind'', PStr ''PropertyType''),
      (''ValueType (VALUE_TYPE_FOR)'', PStr ''StringValue'')]"

definition collection_row :: row where
  "collection_row = map_of
     [(''Type Name'', PStr ''Members''), (''TypeKind'', PStr ''CollectionType'')]"

definition example_rows :: "row list" where
  "example_rows = [widget_row, collection_row, member_of_row, string_value_row, widget_row]"

text \<open>An output directory that already holds a manifest from an earlier run.\<close>

definition stale_dir :: directory where
  "stale_dir = [(''schema.json'', ManifestFile (build_manifest []))]"

section \<open>The reference builder\<close>

text \<open>
  Claim C10. \<^verbatim>\<open>ref\<close> always returns an object under \<^verbatim>\<open>$ref\<close> whose
  \<^verbatim>\<open>type_name\<close> is the argument as given, the empty text included, with no trimming
  and no check; the keys \<^verbatim>\<open>schema\<close> and \<^verbatim>\<open>space\<close> are present exactly when the
  matching argument is true as a Python value, and then hold that argument.
\<close>

theorem ref_keeps_type_name:
  "ref_type_name (unref (ref tn sch sp)) = tn
   \<and> ref_type_name (unref (ref (PStr []) sch sp)) = PStr []
   \<and> ref_schema (unref (ref tn sch sp)) = (if truthy sch then Some sch else None)
   \<and> ref_space (unref (ref tn sch sp)) = (if truthy sp then Some sp else None)
   \<and> (ref_schema (unref (ref tn sch sp)) \<noteq> None) = truthy sch
   \<and> (ref_space (unref (ref tn sch sp)) \<noteq> None) = truthy sp"
  by (simp add: ref_def)

section \<open>Loops that collect results\<close>

lemma collect_map_Inr:
  assumes "collect f xs = Inr ys"
    and "\<And>x y. f x = Inr y \<Longrightarrow> g y = h x"
  shows "map g ys = map h xs"
  using assms(1)
proof (induction xs arbitrary: ys)
  case Nil
  then show ?case by simp
next
  case (Cons x xs)
  from Cons.prems obtain y ys' where fx: "f x = Inr y" and rest: "collect f xs = Inr ys'"
    and ys: "ys = y # ys'"
    by (auto split: sum.splits)
  have "map g ys' = map h xs"
    using Cons.IH [OF rest] .
  moreover have "g y = h x"
    using assms(2) fx by simp
  ultimately show ?case using ys by simp
qed

lemma collect_total:
  assumes "\<And>x. \<exists>y. f x = Inr y"
  shows "\<exists>ys. collect f xs = Inr ys"
proof (induction xs)
  case Nil
  then show ?case by simp
next
  case (Cons x xs)
  obtain y where "f x = Inr y" using assms by blast
  moreover from Cons obtain ys where "collect f xs = Inr ys" by auto
  ultimately show ?case by simp
qed

lemma collect_set:
  "collect f xs = Inr ys \<Longrightarrow> y \<in> set ys \<Longrightarrow> \<exists>x \<in> set xs. f x = Inr y"
proof (induction xs arbitrary: ys)
  case Nil
  then show ?case by simp
next
  case (Cons x xs)
  from Cons.prems(1) obtain y' ys' where "f x = Inr y'" "collect f xs = Inr ys'" "ys = y' # ys'"
    by (auto split: sum.splits)
  with Cons.IH Cons.prems(2) show ?case by auto
qed

lemma product_comprehension:
  "map (\<lambda>(x, y). f x y) (List.product xs ys) = concat (map (\<lambda>x. map (f x) ys) xs)"
  by (induction xs) simp_all

section \<open>Cross-product expansion of a relationship row\<close>

lemma common_header_returns:
  "r ''TypeKind'' = Some kind \<Longrightarrow> \<exists>hdr. common_header r dname = Inr hdr"
  by (simp add: common_header_def row_item_def)

lemma relationship_edge_bundle_name:
  "relationship_edge_bundle r rel so ds ll lh hi tsem tmin tmax p = Inr y \<Longrightarrow>
   type_name y = PStr (fst p @ ''-'' @ py_str rel @ ''->'' @ snd p)"
  by (cases p) (auto simp: relationship_edge_bundle_def Let_def split: sum.splits)

lemma relationship_edge_single_name:
  "relationship_edge_single r rel so ds ll lh hi tsem tmin tmax p = Inr y \<Longrightarrow>
   type_name y = PStr (fst p @ ''-'' @ py_str rel @ ''->'' @ snd p)"
  by (cases p) (auto simp: relationship_edge_single_def Let_def split: sum.splits)

lemma rel_bundle_names:
  assumes "row_to_relationshiptype_bundle r = Inr outs"
  shows "map type_name outs = product_names r"
proof -
  from assms obtain rel where rel: "r ''Type Name'' = Some rel"
    by (auto simp: row_to_relationshiptype_bundle_def row_item_def split: option.splits)
  let ?h = "\<lambda>p. PStr (fst p @ ''-'' @ py_str rel @ ''->'' @ snd p)"
  from assms rel obtain so ds ll lh hi tsem tmin tmax where
    coll: "collect (relationship_edge_bundle r rel so ds ll lh hi tsem tmin tmax)
             (List.product (relationship_froms r) (relationship_tos r)) = Inr outs"
    by (auto simp: row_to_relationshiptype_bundle_def row_item_def Let_def relationship_froms_def relationship_tos_def
        split: sum.splits)
  have "map type_name outs = map ?h (List.product (relationship_froms r) (relationship_tos r))"
    by (rule collect_map_Inr [OF coll]) (rule relationship_edge_bundle_name)
  also have "?h = (\<lambda>(src, tgt). PStr (src @ ''-'' @ py_str rel @ ''->'' @ tgt))"
    by (simp add: fun_eq_iff)
  finally show ?thesis
    using rel by (simp add: product_names_def row_get_def product_comprehension)
qed

lemma rel_single_names:
  assumes "row_to_relationshiptype_single r = Inr outs"
  shows "map type_name outs = product_names r"
proof -
  from assms obtain rel where rel: "r ''Type Name'' = Some rel"
    by (auto simp: row_to_relationshiptype_single_def row_item_def split: option.splits)
  let ?h = "\<lambda>p. PStr (fst p @ ''-'' @ py_str rel @ ''->'' @ snd p)"
  from assms rel obtain so ds ll lh hi tsem tmin tmax where
    coll: "collect (relationship_edge_single r rel so ds ll lh hi tsem tmin tmax)
             (List.product (relationship_froms r) (relationship_tos r)) = Inr outs"
    by (auto simp: row_to_relationshiptype_single_def row_item_def Let_def relationship_froms_def relationship_tos_def
        split: sum.splits)
  have "map type_name outs = map ?h (List.product (relationship_froms r) (relationship_tos r))"
    by (rule collect_map_Inr [OF coll]) (rule relationship_edge_single_name)
  also have "?h = (\<lambda>(src, tgt). PStr (src @ ''-'' @ py_str rel @ ''->'' @ tgt))"
    by (simp add: fun_eq_iff)
  finally show ?thesis
    using rel by (simp add: product_names_def row_get_def product_comprehension)
qed

lemma cardinalities_convertD:
  assumes "cardinalities_convert r"
  obtains tmin tmax where
    "py_int (py_or (row_get r ''Target Min Cardinality'' PNone) (PInt 0)) = Inr tmin"
    "py_int (py_or (row_get r ''Target Max Cardinality'' PNone) (PInt 1)) = Inr tmax"
proof -
  have "\<not> isl x \<Longrightarrow> \<exists>v. x = Inr v" for x :: "py_error + int"
    by (cases x) simp_all
  with assms show ?thesis
    unfolding cardinalities_convert_def using that by blast
qed

lemma rel_bundle_returns:
  assumes "r ''Type Name'' \<noteq> None" and "r ''TypeKind'' \<noteq> None" and "cardinalities_convert r"
  shows "\<exists>outs. row_to_relationshiptype_bundle r = Inr outs"
proof -
  from assms(2) obtain kind where kind: "r ''TypeKind'' = Some kind" by auto
  have edge: "\<exists>y. relationship_edge_bundle r rel so ds ll lh hi tsem tmin tmax p = Inr y"
    for rel so ds ll lh hi tsem tmin tmax p
    by (cases p) (auto simp: relationship_edge_bundle_def Let_def common_header_def row_item_def kind)
  from assms(1) obtain rel where rel: "r ''Type Name'' = Some rel" by auto
  from assms(3) obtain tmin tmax where
    "py_int (py_or (row_get r ''Target Min Cardinality'' PNone) (PInt 0)) = Inr tmin"
    "py_int (py_or (row_get r ''Target Max Cardinality'' PNone) (PInt 1)) = Inr tmax"
    by (rule cardinalities_convertD)
  then show ?thesis
    using rel collect_total [of "relationship_edge_bundle r rel _ _ _ _ _ _ tmin tmax"] edge
    by (simp add: row_to_relationshiptype_bundle_def row_item_def Let_def)
qed

lemma rel_single_returns:
  assumes "r ''Type Name'' \<noteq> None" and "r ''TypeKind'' \<noteq> None" and "cardinalities_convert r"
  shows "\<exists>outs. row_to_relationshiptype_single r = Inr outs"
proof -
  from assms(2) obtain kind where kind: "r ''TypeKind'' = Some kind" by auto
  have edge: "\<exists>y. relationship_edge_single r rel so ds ll lh hi tsem tmin tmax p = Inr y"
    for rel so ds ll lh hi tsem tmin tmax p
    by (cases p) (auto simp: relationship_edge_single_def Let_def common_header_def row_item_def kind)
  from assms(1) obtain rel where rel: "r ''Type Name'' = Some rel" by auto
  from assms(3) obtain tmin tmax where
    "py_int (py_or (row_get r ''Target Min Cardinality'' PNone) (PInt 0)) = Inr tmin"
    "py_int (py_or (row_get r ''Target Max Cardinality'' PNone) (PInt 1)) = Inr tmax"
    by (rule cardinalities_convertD)
  then show ?thesis
    using rel collect_total [of "relationship_edge_single r rel _ _ _ _ _ _ tmin tmax"] edge
    by (simp add: row_to_relationshiptype_single_def row_item_def Let_def)
qed

lemma length_product_names: "length (product_names r) = length (relationship_froms r) * length (relationship_tos r)"
  by (simp add: product_names_def length_concat comp_def sum_list_triv)

lemma product_names_empty: "relationship_froms r = [] \<or> relationship_tos r = [] \<Longrightarrow> product_names r = []"
  by (auto simp: product_names_def)

text \<open>
  Whenever a relationship converter (of either notebook) returns, the
  \<^verbatim>\<open>type_name\<close>s of its descriptors are, in order, the names over the product of
  \<^verbatim>\<open>froms\<close> and \<^verbatim>\<open>tos\<close>; it returns when the row has a \<^verbatim>\<open>Type Name\<close> and a
  \<^verbatim>\<open>TypeKind\<close> and its cardinality cells convert to integers. On a row whose
  list cells are texts or absent columns, \<^verbatim>\<open>froms\<close> and \<^verbatim>\<open>tos\<close> are the lists
  of the specification.
\<close>

lemma relationship_names_when_returning:
  "(row_to_relationshiptype_bundle r = Inr outs \<longrightarrow> map type_name outs = product_names r)
   \<and> (row_to_relationshiptype_single r = Inr outs \<longrightarrow> map type_name outs = product_names r)
   \<and> length (product_names r) = length (relationship_froms r) * length (relationship_tos r)
   \<and> (relationship_froms r = [] \<or> relationship_tos r = [] \<longrightarrow> product_names r = [])
   \<and> (r ''Type Name'' \<noteq> None \<and> r ''TypeKind'' \<noteq> None \<and> cardinalities_convert r \<longrightarrow>
        (\<exists>outs. row_to_relationshiptype_bundle r = Inr outs)
        \<and> (\<exists>outs. row_to_relationshiptype_single r = Inr outs))"
  using rel_bundle_names [of r outs] rel_single_names [of r outs]
    rel_bundle_returns [of r] rel_single_returns [of r]
    length_product_names [of r] product_names_empty [of r]
  by blast

lemma comprehension_filter:
  "concat (map (\<lambda>p. if P (f p) then [f p] else []) xs) = filter P (map f xs)"
  by (induction xs) simp_all

lemma comma_list_filter:
  "comma_list s = filter (\<lambda>t. t \<noteq> []) (map py_strip (py_split CHR '','' s))"
  unfolding comma_list_def by (rule comprehension_filter)

lemma relationship_lists_of_filled_cells:
  assumes "r ''Relationship From'' \<noteq> Some PNaN" and "r ''Relationship From'' \<noteq> Some PNone"
    and "r ''Relationship To'' \<noteq> Some PNaN" and "r ''Relationship To'' \<noteq> Some PNone"
  shows "relationship_froms r = parsed_list (r ''Relationship From'')"
    and "relationship_tos r = parsed_list (r ''Relationship To'')"
  using assms
  by (auto simp: relationship_froms_def relationship_tos_def parsed_list_def row_get_def
      comma_list_filter py_strip_def split: option.splits)

lemma member_of_row_names:
  "map_sum id (map type_name) (row_to_relationshiptype_bundle member_of_row)
     = Inr [PStr ''Person-MEMBER_OF->Team'', PStr ''Volunteer-MEMBER_OF->Team'']
   \<and> map_sum id (map type_name) (row_to_relationshiptype_single member_of_row)
     = Inr [PStr ''Person-MEMBER_OF->Team'', PStr ''Volunteer-MEMBER_OF->Team'']
   \<and> row_to_relationshiptype_bundle no_target_row = Inr []
   \<and> row_to_relationshiptype_single no_target_row = Inr []"
  by code_simp

section \<open>What the normalisations do on each kind of cell\<close>

lemma py_or_absent [simp]: "py_or PNone d = d" "py_or (PStr []) d = d"
  by (simp_all add: py_or_def)

lemma has_inverse_cell_default:
  "py_or (row_get r ''Has Inverse'' (PStr [])) PNone = py_or (row_get r ''Has Inverse'' PNone) PNone"
  by (simp add: row_get_def py_or_def split: option.splits)

lemma rel_bundle_InrD:
  assumes "row_to_relationshiptype_bundle r = Inr outs"
  obtains rel so ds ll lh tmin tmax where
    "r ''Type Name'' = Some rel"
    "py_int (py_or (row_get r ''Target Min Cardinality'' PNone) (PInt 0)) = Inr tmin"
    "py_int (py_or (row_get r ''Target Max Cardinality'' PNone) (PInt 1)) = Inr tmax"
    "collect (relationship_edge_bundle r rel so ds ll lh
                (py_or (row_get r ''Has Inverse'' PNone) PNone)
                (row_get r ''Target Semantic'' (PStr ''Set'')) tmin tmax)
       (List.product (relationship_froms r) (relationship_tos r)) = Inr outs"
  using assms
  by (auto simp: row_to_relationshiptype_bundle_def row_item_def Let_def relationship_froms_def relationship_tos_def
      split: sum.splits option.splits)

lemma rel_single_InrD:
  assumes "row_to_relationshiptype_single r = Inr outs"
  obtains rel so ds ll lh tmin tmax where
    "r ''Type Name'' = Some rel"
    "py_int (py_or (row_get r ''Target Min Cardinality'' PNone) (PInt 0)) = Inr tmin"
    "py_int (py_or (row_get r ''Target Max Cardinality'' PNone) (PInt 1)) = Inr tmax"
    "collect (relationship_edge_single r rel so ds ll lh
                (py_or (row_get r ''Has Inverse'' PNone) PNone)
                (row_get r ''Target Semantic'' (PStr ''Set'')) tmin tmax)
       (List.product (relationship_froms r) (relationship_tos r)) = Inr outs"
  using assms
  by (auto simp: row_to_relationshiptype_single_def row_item_def Let_def relationship_froms_def relationship_tos_def
      has_inverse_cell_default split: sum.splits option.splits)

lemma relationship_edge_bundle_fields:
  assumes "relationship_edge_bundle r rel so ds ll lh hi tsem tmin tmax p = Inr y"
  shows "target_min_cardinality (spec_rel (spec y)) = tmin"
    and "target_max_cardinality (spec_rel (spec y)) = tmax"
    and "target_semantic (spec_rel (spec y)) = tsem"
    and "has_inverse (spec_rel (spec y)) = (if truthy hi then Some (ref hi PNone PNone) else None)"
    and "type_kind y = ''RelationshipType''"
    and "wrapper_described_by y = ref (PStr ''RelationshipType'') PNone PNone"
    and "common_header r (fst p @ ''-'' @ py_str rel @ ''->'' @ snd p @ ''Descriptor'')
           = Inr (spec_header (spec y))"
  using assms
  by (cases p; auto simp: relationship_edge_bundle_def Let_def split: sum.splits)+

lemma relationship_edge_single_fields:
  assumes "relationship_edge_single r rel so ds ll lh hi tsem tmin tmax p = Inr y"
  shows "target_min_cardinality (spec_rel (spec y)) = tmin"
    and "target_max_cardinality (spec_rel (spec y)) = tmax"
    and "target_semantic (spec_rel (spec y)) = tsem"
    and "has_inverse (spec_rel (spec y)) = (if truthy hi then Some (ref hi PNone PNone) else None)"
    and "type_kind y = ''Relationship''"
    and "wrapper_described_by y = ref (PStr ''RelationshipType'') PNone PNone"
    and "common_header r (fst p @ ''-'' @ py_str rel @ ''->'' @ snd p @ ''Descriptor'')
           = Inr (spec_header (spec y))"
  using assms
  by (cases p; auto simp: relationship_edge_single_def Let_def split: sum.splits)+

text \<open>When the three columns are absent from the table the defaults apply.\<close>

lemma absent_cardinality_columns_default:
  assumes "r ''Target Min Cardinality'' = None" and "r ''Target Max Cardinality'' = None"
    and "r ''Target Semantic'' = None"
    and "row_to_relationshiptype_bundle r = Inr outs \<or> row_to_relationshiptype_single r = Inr outs"
    and "d \<in> set outs"
  shows "target_min_cardinality (spec_rel (spec d)) = 0
         \<and> target_max_cardinality (spec_rel (spec d)) = 1
         \<and> target_semantic (spec_rel (spec d)) = PStr ''Set''"
  using assms(4)
proof
  assume "row_to_relationshiptype_bundle r = Inr outs"
  then obtain rel so ds ll lh tmin tmax where
    "py_int (py_or (row_get r ''Target Min Cardinality'' PNone) (PInt 0)) = Inr tmin"
    "py_int (py_or (row_get r ''Target Max Cardinality'' PNone) (PInt 1)) = Inr tmax"
    and coll: "collect (relationship_edge_bundle r rel so ds ll lh
                (py_or (row_get r ''Has Inverse'' PNone) PNone)
                (row_get r ''Target Semantic'' (PStr ''Set'')) tmin tmax)
       (List.product (relationship_froms r) (relationship_tos r)) = Inr outs"
    by (rule rel_bundle_InrD)
  then have "tmin = 0" "tmax = 1" "row_get r ''Target Semantic'' (PStr ''Set'') = PStr ''Set''"
    using assms(1-3) by (simp_all add: row_get_def)
  moreover from collect_set [OF coll assms(5)] obtain p where
    "relationship_edge_bundle r rel so ds ll lh (py_or (row_get r ''Has Inverse'' PNone) PNone)
       (row_get r ''Target Semantic'' (PStr ''Set'')) tmin tmax p = Inr d"
    by blast
  ultimately show ?thesis
    by (simp add: relationship_edge_bundle_fields)
next
  assume "row_to_relationshiptype_single r = Inr outs"
  then obtain rel so ds ll lh tmin tmax where
    "py_int (py_or (row_get r ''Target Min Cardinality'' PNone) (PInt 0)) = Inr tmin"
    "py_int (py_or (row_get r ''Target Max Cardinality'' PNone) (PInt 1)) = Inr tmax"
    and coll: "collect (relationship_edge_single r rel so ds ll lh
                (py_or (row_get r ''Has Inverse'' PNone) PNone)
                (row_get r ''Target Semantic'' (PStr ''Set'')) tmin tmax)
       (List.product (relationship_froms r) (relationship_tos r)) = Inr outs"
    by (rule rel_single_InrD)
  then have "tmin = 0" "tmax = 1" "row_get r ''Target Semantic'' (PStr ''Set'') = PStr ''Set''"
    using assms(1-3) by (simp_all add: row_get_def)
  moreover from collect_set [OF coll assms(5)] obtain p where
    "relationship_edge_single r rel so ds ll lh (py_or (row_get r ''Has Inverse'' PNone) PNone)
       (row_get r ''Target Semantic'' (PStr ''Set'')) tmin tmax p = Inr d"
    by blast
  ultimately show ?thesis
    by (simp add: relationship_edge_single_fields)
qed

text \<open>\<^verbatim>\<open>has_inverse\<close> is absent exactly when the cell is absent or false as a Python value.\<close>

lemma has_inverse_of_cell:
  assumes "row_to_relationshiptype_bundle r = Inr outs \<or> row_to_relationshiptype_single r = Inr outs"
    and "d \<in> set outs"
  shows "has_inverse (spec_rel (spec d)) =
           (case r ''Has Inverse'' of
              None \<Rightarrow> None
            | Some v \<Rightarrow> if truthy v then Some (ref v PNone PNone) else None)"
  using assms(1)
proof
  assume "row_to_relationshiptype_bundle r = Inr outs"
  then obtain rel so ds ll lh tmin tmax where
    coll: "collect (relationship_edge_bundle r rel so ds ll lh
                (py_or (row_get r ''Has Inverse'' PNone) PNone)
                (row_get r ''Target Semantic'' (PStr ''Set'')) tmin tmax)
       (List.product (relationship_froms r) (relationship_tos r)) = Inr outs"
    by (rule rel_bundle_InrD)
  from collect_set [OF coll assms(2)] obtain p where
    "relationship_edge_bundle r rel so ds ll lh (py_or (row_get r ''Has Inverse'' PNone) PNone)
       (row_get r ''Target Semantic'' (PStr ''Set'')) tmin tmax p = Inr d"
    by blast
  then show ?thesis
    by (simp add: relationship_edge_bundle_fields row_get_def py_or_def split: option.splits)
next
  assume "row_to_relationshiptype_single r = Inr outs"
  then obtain rel so ds ll lh tmin tmax where
    coll: "collect (relationship_edge_single r rel so ds ll lh
                (py_or (row_get r ''Has Inverse'' PNone) PNone)
                (row_get r ''Target Semantic'' (PStr ''Set'')) tmin tmax)
       (List.product (relationship_froms r) (relationship_tos r)) = Inr outs"
    by (rule rel_single_InrD)
  from collect_set [OF coll assms(2)] obtain p where
    "relationship_edge_single r rel so ds ll lh (py_or (row_get r ''Has Inverse'' PNone) PNone)
       (row_get r ''Target Semantic'' (PStr ''Set'')) tmin tmax p = Inr d"
    by blast
  then show ?thesis
    by (simp add: relationship_edge_single_fields row_get_def py_or_def split: option.splits)
qed

text \<open>The header's \<^verbatim>\<open>label\<close> and \<^verbatim>\<open>description\<close>, by kind of cell.\<close>

lemma common_header_label:
  assumes "common_header r dname = Inr hdr"
  shows "label hdr =
           (case r ''Label (Human Readable)'' of
              None \<Rightarrow> PStr [] | Some v \<Rightarrow> if truthy v then v else PStr [])"
    and "description hdr =
           (case r ''Description'' of
              None \<Rightarrow> PStr [] | Some v \<Rightarrow> if truthy v then v else PStr [])"
  using assms
  by (auto simp: common_header_def row_get_def py_or_def split: sum.splits option.splits)

text \<open>The comma-separated cells.\<close>

lemma comma_list_example: "comma_list ''A, B,,C ,'' = [''A'', ''B'', ''C'']"
  by code_simp

lemma comma_list_no_empty_token: "[] \<notin> set (comma_list s)"
  by (auto simp: comma_list_def)

lemma comma_list_empty_text: "comma_list [] = []"
  by code_simp

lemma holon_lists_of_blank_cell:
  assumes "r ''MAP PROPERTIES PropertyTypes'' = None \<or> r ''MAP PROPERTIES PropertyTypes'' = Some PNaN"
    and "row_to_holontype_bundle r = Inr d \<or> row_to_holontype_single r = Inr d"
  shows "properties (spec d) = []"
  using assms
  by (auto simp: row_to_holontype_bundle_def row_to_holontype_single_def row_get_def Let_def
      comma_list_empty_text split: sum.splits)

text \<open>The bundle notebook's \<^verbatim>\<open>value_type\<close>.\<close>

lemma bundle_value_type:
  assumes "row_to_propertytype_bundle r = Inr d"
  shows "\<exists>s. row_get r ''ValueType (VALUE_TYPE_FOR)'' (PStr []) = PStr s
           \<and> value_type (spec d) =
               (if py_strip s \<noteq> [] then Some (ref (PStr (py_strip s)) PNone PNone) else None)"
  using assms
  by (cases "row_get r ''ValueType (VALUE_TYPE_FOR)'' (PStr [])")
     (auto simp: row_to_propertytype_bundle_def split: sum.splits)

section \<open>The two notebooks side by side\<close>

lemma collect_map_sum:
  assumes "\<And>x. map_sum id g (f x) = f' x"
  shows "map_sum id (map g) (collect f xs) = collect f' xs"
proof (induction xs)
  case Nil
  then show ?case by simp
next
  case (Cons x xs)
  have "f' x = map_sum id g (f x)"
    by (rule assms [symmetric])
  moreover have "collect f' xs = map_sum id (map g) (collect f xs)"
    by (rule Cons.IH [symmetric])
  ultimately show ?case
    by (cases "f x"; cases "collect f xs") simp_all
qed

lemma holon_converters_agree:
  "map_sum id (\<lambda>d. d\<lparr>type_kind := ''HolonType''\<rparr>) (row_to_holontype_single r)
     = row_to_holontype_bundle r"
  by (simp add: row_to_holontype_single_def row_to_holontype_bundle_def Let_def
      split: sum.splits)

lemma relationship_edges_agree:
  "map_sum id (\<lambda>d. d\<lparr>type_kind := ''RelationshipType''\<rparr>)
     (relationship_edge_single r rel so ds ll lh hi tsem tmin tmax p)
   = relationship_edge_bundle r rel so ds ll lh hi tsem tmin tmax p"
  by (cases p)
     (simp add: relationship_edge_single_def relationship_edge_bundle_def Let_def
       SCHEMA_INFO_type_name_def default_schema_type_name_def split: sum.splits)

lemma relationship_converters_agree:
  "map_sum id (map (\<lambda>d. d\<lparr>type_kind := ''RelationshipType''\<rparr>)) (row_to_relationshiptype_single r)
     = row_to_relationshiptype_bundle r"
  by (simp add: row_to_relationshiptype_single_def row_to_relationshiptype_bundle_def Let_def
      has_inverse_cell_default collect_map_sum [OF relationship_edges_agree]
      split: sum.splits)

lemma property_converters_agree_on_named_value_type:
  assumes "strip_method (row_get r ''ValueType (VALUE_TYPE_FOR)'' (PStr [])) \<noteq> Inr []"
  shows "map_sum id (\<lambda>d. d\<lparr>type_kind := ''PropertyType''\<rparr>) (row_to_propertytype_single r)
     = row_to_propertytype_bundle r"
  using assms
  by (simp add: row_to_propertytype_single_def row_to_propertytype_bundle_def
      split: sum.splits)

section \<open>Blank cells\<close>

text \<open>
  Claim C1 (every relationship row yields one descriptor per pair of its from-list
  and to-list, none when a list is empty). On the row of the specification's example
  with blank (NaN) cardinality cells, the lists have two and one members, yet both
  converters raise ValueError before the loop over the pairs and yield no descriptor.
  On the same row with a blank (NaN) \<^verbatim>\<open>Relationship To\<close> cell instead, the to-list
  is empty, yet both converters yield two descriptors.
\<close>

theorem blank_cells_break_cross_product:
  "length (parsed_list (blank_cardinality_row ''Relationship From''))
     * length (parsed_list (blank_cardinality_row ''Relationship To'')) = 2
   \<and> row_to_relationshiptype_bundle blank_cardinality_row = Inl ValueError
   \<and> row_to_relationshiptype_single blank_cardinality_row = Inl ValueError
   \<and> parsed_list (blank_to_row ''Relationship To'') = []
   \<and> map_sum id length (row_to_relationshiptype_bundle blank_to_row) = Inr 2
   \<and> map_sum id length (row_to_relationshiptype_single blank_to_row) = Inr 2"
  by code_simp

text \<open>
  Claim C2 (blank cardinality cells default to 0, 1 and ``Set''). On a relationship row
  whose \<^verbatim>\<open>Target Min Cardinality\<close>, \<^verbatim>\<open>Target Max Cardinality\<close> and
  \<^verbatim>\<open>Target Semantic\<close> cells are blank (NaN), both converters raise ValueError:
  \<^verbatim>\<open>nan or 0\<close> is \<^verbatim>\<open>nan\<close>, and \<^verbatim>\<open>int(nan)\<close> raises. With the cardinality
  columns absent and only \<^verbatim>\<open>Target Semantic\<close> blank, every descriptor's
  \<^verbatim>\<open>target_semantic\<close> is NaN, not ``Set''.
\<close>

theorem blank_cardinality_cells_raise:
  "row_to_relationshiptype_bundle blank_cardinality_row = Inl ValueError
   \<and> row_to_relationshiptype_single blank_cardinality_row = Inl ValueError
   \<and> map_sum id (map (target_semantic \<circ> spec_rel \<circ> spec))
        (row_to_relationshiptype_bundle blank_semantic_row) = Inr [PNaN, PNaN]
   \<and> map_sum id (map (target_semantic \<circ> spec_rel \<circ> spec))
        (row_to_relationshiptype_single blank_semantic_row) = Inr [PNaN, PNaN]"
  by code_simp

text \<open>
  Claim C3 (an empty \<^verbatim>\<open>ValueType (VALUE_TYPE_FOR)\<close> cell gives an absent
  \<^verbatim>\<open>value_type\<close> in both notebooks, without raising). The single-file notebook's
  converter returns a reference to the empty text when the column is absent or the
  cell holds only spaces; on a blank cell (NaN) both notebooks' converters raise
  AttributeError, NaN having no \<^verbatim>\<open>strip\<close>.
\<close>

theorem single_file_empty_value_type_reference:
  "map_sum id (value_type \<circ> spec) (row_to_propertytype_single color_row)
     = Inr (Some (DollarRef \<lparr>ref_type_name = PStr [], ref_schema = None, ref_space = None\<rparr>))
   \<and> map_sum id (value_type \<circ> spec) (row_to_propertytype_single spaces_value_row)
     = Inr (Some (DollarRef \<lparr>ref_type_name = PStr [], ref_schema = None, ref_space = None\<rparr>))
   \<and> row_to_propertytype_single blank_value_row = Inl AttributeError
   \<and> row_to_propertytype_bundle blank_value_row = Inl AttributeError"
  by code_simp

text \<open>
  Claim C4 (a missing list-valued cell parses to the empty list). On a relationship
  row whose \<^verbatim>\<open>Relationship To\<close> cell is blank (NaN), both converters parse the
  cell to the one-token list \<^verbatim>\<open>["nan"]\<close>, since \<^verbatim>\<open>str(nan)\<close> is \<^verbatim>\<open>"nan"\<close>,
  and emit an edge to a type called ``nan'' for every source.
\<close>

theorem blank_relationship_list_parses_to_nan:
  "map_sum id (map type_name) (row_to_relationshiptype_bundle blank_to_row)
     = Inr [PStr ''Person-MEMBER_OF->nan'', PStr ''Volunteer-MEMBER_OF->nan'']
   \<and> map_sum id (map type_name) (row_to_relationshiptype_single blank_to_row)
     = Inr [PStr ''Person-MEMBER_OF->nan'', PStr ''Volunteer-MEMBER_OF->nan'']"
  by code_simp

text \<open>
  Claim C5 (the two notebooks' descriptors differ in \<^verbatim>\<open>type_kind\<close> only). On a
  property row without a \<^verbatim>\<open>ValueType (VALUE_TYPE_FOR)\<close> column the two descriptors
  still differ once their \<^verbatim>\<open>type_kind\<close> is made equal: the bundle notebook's
  \<^verbatim>\<open>value_type\<close> is absent, the single-file notebook's is not.
\<close>

theorem property_converters_differ_on_empty_value_type:
  "map_sum id (\<lambda>d. d\<lparr>type_kind := ''PropertyType''\<rparr>) (row_to_propertytype_single color_row)
     \<noteq> row_to_propertytype_bundle color_row
   \<and> map_sum id (value_type \<circ> spec) (row_to_propertytype_bundle color_row) = Inr None
   \<and> map_sum id (\<lambda>d. value_type (spec d) = None) (row_to_propertytype_single color_row) = Inr False"
  by code_simp

text \<open>
  Claim C6 (an empty or missing \<^verbatim>\<open>Has Inverse\<close> cell gives an absent
  \<^verbatim>\<open>has_inverse\<close>). On a relationship row whose \<^verbatim>\<open>Has Inverse\<close> cell is blank
  (NaN), every descriptor of both converters carries a reference whose
  \<^verbatim>\<open>type_name\<close> is NaN: \<^verbatim>\<open>nan or None\<close> is \<^verbatim>\<open>nan\<close>.
\<close>

theorem blank_has_inverse_becomes_reference:
  "map_sum id (map (has_inverse \<circ> spec_rel \<circ> spec)) (row_to_relationshiptype_bundle blank_inverse_row)
     = Inr [Some (DollarRef \<lparr>ref_type_name = PNaN, ref_schema = None, ref_space = None\<rparr>),
            Some (DollarRef \<lparr>ref_type_name = PNaN, ref_schema = None, ref_space = None\<rparr>)]
   \<and> map_sum id (map (has_inverse \<circ> spec_rel \<circ> spec)) (row_to_relationshiptype_single blank_inverse_row)
     = Inr [Some (DollarRef \<lparr>ref_type_name = PNaN, ref_schema = None, ref_space = None\<rparr>),
            Some (DollarRef \<lparr>ref_type_name = PNaN, ref_schema = None, ref_space = None\<rparr>)]"
  by code_simp

text \<open>
  Claim C7 (\<^verbatim>\<open>label\<close> and \<^verbatim>\<open>description\<close> fall back to the empty text on a
  missing or empty cell). On a row whose \<^verbatim>\<open>Label (Human Readable)\<close> and
  \<^verbatim>\<open>Description\<close> cells are blank (NaN), the header's \<^verbatim>\<open>label\<close> and
  \<^verbatim>\<open>description\<close> are NaN, and so they are in the descriptor of either notebook.
\<close>

theorem blank_label_stays_nan:
  "map_sum id (\<lambda>h. (label h, description h)) (common_header blank_label_row ''WidgetDescriptor'')
     = Inr (PNaN, PNaN)
   \<and> map_sum id (label \<circ> spec_header \<circ> spec) (row_to_holontype_bundle blank_label_row) = Inr PNaN
   \<and> map_sum id (label \<circ> spec_header \<circ> spec) (row_to_holontype_single blank_label_row) = Inr PNaN"
  by code_simp

section \<open>Every descriptor is described by its row's kind\<close>

lemma ref_type_name_ref [simp]: "ref_type_name (unref (ref tn sch sp)) = tn"
  by (simp add: ref_def Let_def)

lemma common_header_described_by:
  "common_header r dname = Inr hdr \<Longrightarrow> r ''TypeKind'' = Some (ref_type_name (unref (described_by hdr)))"
  by (auto simp: common_header_def row_item_def split: option.splits)

lemma holon_bundle_fields:
  assumes "row_to_holontype_bundle r = Inr d"
  shows "type_kind d = ''HolonType''"
    and "wrapper_described_by d = ref (PStr ''HolonType'') PNone PNone"
    and "r ''TypeKind'' = Some (ref_type_name (unref (described_by (spec_header (spec d)))))"
  using assms
  by (auto simp: row_to_holontype_bundle_def Let_def split: sum.splits
      dest: common_header_described_by)

lemma holon_single_fields:
  assumes "row_to_holontype_single r = Inr d"
  shows "type_kind d = ''Holon''"
    and "wrapper_described_by d = ref (PStr ''HolonType'') PNone PNone"
    and "r ''TypeKind'' = Some (ref_type_name (unref (described_by (spec_header (spec d)))))"
  using assms
  by (auto simp: row_to_holontype_single_def Let_def split: sum.splits
      dest: common_header_described_by)

lemma property_bundle_fields:
  assumes "row_to_propertytype_bundle r = Inr d"
  shows "type_kind d = ''PropertyType''"
    and "wrapper_described_by d = ref (PStr ''PropertyType'') PNone PNone"
    and "r ''TypeKind'' = Some (ref_type_name (unref (described_by (spec_header (spec d)))))"
  using assms
  by (auto simp: row_to_propertytype_bundle_def split: sum.splits
      dest: common_header_described_by)

lemma property_single_fields:
  assumes "row_to_propertytype_single r = Inr d"
  shows "type_kind d = ''Property''"
    and "wrapper_described_by d = ref (PStr ''PropertyType'') PNone PNone"
    and "r ''TypeKind'' = Some (ref_type_name (unref (described_by (spec_header (spec d)))))"
  using assms
  by (auto simp: row_to_propertytype_single_def split: sum.splits
      dest: common_header_described_by)

lemma relationship_bundle_fields:
  assumes "row_to_relationshiptype_bundle r = Inr outs" and "d \<in> set outs"
  shows "type_kind d = ''RelationshipType''"
    and "wrapper_described_by d = ref (PStr ''RelationshipType'') PNone PNone"
    and "r ''TypeKind'' = Some (ref_type_name (unref (described_by (spec_header (spec d)))))"
proof -
  from assms(1) obtain rel so ds ll lh tmin tmax where
    coll: "collect (relationship_edge_bundle r rel so ds ll lh
                (py_or (row_get r ''Has Inverse'' PNone) PNone)
                (row_get r ''Target Semantic'' (PStr ''Set'')) tmin tmax)
       (List.product (relationship_froms r) (relationship_tos r)) = Inr outs"
    by (rule rel_bundle_InrD)
  from collect_set [OF coll assms(2)] obtain p where
    edge: "relationship_edge_bundle r rel so ds ll lh (py_or (row_get r ''Has Inverse'' PNone) PNone)
       (row_get r ''Target Semantic'' (PStr ''Set'')) tmin tmax p = Inr d"
    by blast
  show "type_kind d = ''RelationshipType''"
    and "wrapper_described_by d = ref (PStr ''RelationshipType'') PNone PNone"
    using relationship_edge_bundle_fields(5,6) [OF edge] by simp_all
  show "r ''TypeKind'' = Some (ref_type_name (unref (described_by (spec_header (spec d)))))"
    using relationship_edge_bundle_fields(7) [OF edge] by (rule common_header_described_by)
qed

lemma relationship_single_fields:
  assumes "row_to_relationshiptype_single r = Inr outs" and "d \<in> set outs"
  shows "type_kind d = ''Relationship''"
    and "wrapper_described_by d = ref (PStr ''RelationshipType'') PNone PNone"
    and "r ''TypeKind'' = Some (ref_type_name (unref (described_by (spec_header (spec d)))))"
proof -
  from assms(1) obtain rel so ds ll lh tmin tmax where
    coll: "collect (relationship_edge_single r rel so ds ll lh
                (py_or (row_get r ''Has Inverse'' PNone) PNone)
                (row_get r ''Target Semantic'' (PStr ''Set'')) tmin tmax)
       (List.product (relationship_froms r) (relationship_tos r)) = Inr outs"
    by (rule rel_single_InrD)
  from collect_set [OF coll assms(2)] obtain p where
    edge: "relationship_edge_single r rel so ds ll lh (py_or (row_get r ''Has Inverse'' PNone) PNone)
       (row_get r ''Target Semantic'' (PStr ''Set'')) tmin tmax p = Inr d"
    by blast
  show "type_kind d = ''Relationship''"
    and "wrapper_described_by d = ref (PStr ''RelationshipType'') PNone PNone"
    using relationship_edge_single_fields(5,6) [OF edge] by simp_all
  show "r ''TypeKind'' = Some (ref_type_name (unref (described_by (spec_header (spec d)))))"
    using relationship_edge_single_fields(7) [OF edge] by (rule common_header_described_by)
qed

lemma convert_row_bundle_cases:
  assumes "convert_row_bundle r = Inr ds" and "d \<in> set ds"
  shows "(r ''TypeKind'' = Some (PStr ''HolonType'') \<and> row_to_holontype_bundle r = Inr d)
       \<or> (r ''TypeKind'' = Some (PStr ''PropertyType'') \<and> row_to_propertytype_bundle r = Inr d)
       \<or> (r ''TypeKind'' = Some (PStr ''RelationshipType'') \<and> row_to_relationshiptype_bundle r = Inr ds)"
  using assms
  by (auto simp: convert_row_bundle_def row_item_def split: option.splits if_splits sum.splits)

lemma convert_row_single_cases:
  assumes "convert_row_single r = Inr ds" and "d \<in> set ds"
  shows "(r ''TypeKind'' = Some (PStr ''HolonType'') \<and> row_to_holontype_single r = Inr d)
       \<or> (r ''TypeKind'' = Some (PStr ''PropertyType'') \<and> row_to_propertytype_single r = Inr d)
       \<or> (r ''TypeKind'' = Some (PStr ''RelationshipType'') \<and> row_to_relationshiptype_single r = Inr ds)"
  using assms
  by (auto simp: convert_row_single_def row_item_def split: option.splits if_splits sum.splits)

lemma convert_row_bundle_described_by:
  assumes "convert_row_bundle r = Inr ds" and "d \<in> set ds"
  shows "r ''TypeKind'' = Some (ref_type_name (unref (wrapper_described_by d)))
       \<and> r ''TypeKind'' = Some (ref_type_name (unref (described_by (spec_header (spec d)))))"
  using convert_row_bundle_cases [OF assms] assms(2)
  by (auto simp: holon_bundle_fields property_bundle_fields relationship_bundle_fields
      dest: holon_bundle_fields(3) property_bundle_fields(3) relationship_bundle_fields(3))


lemma convert_row_single_described_by:
  assumes "convert_row_single r = Inr ds" and "d \<in> set ds"
  shows "r ''TypeKind'' = Some (ref_type_name (unref (wrapper_described_by d)))
       \<and> r ''TypeKind'' = Some (ref_type_name (unref (described_by (spec_header (spec d)))))"
  using convert_row_single_cases [OF assms] assms(2)
  by (auto simp: holon_single_fields property_single_fields relationship_single_fields
      dest: holon_single_fields(3) property_single_fields(3) relationship_single_fields(3))

lemma convert_row_bundle_kind:
  assumes "convert_row_bundle r = Inr ds" and "d \<in> set ds"
  shows "type_kind d \<in> {''HolonType'', ''PropertyType'', ''RelationshipType''}"
  using convert_row_bundle_cases [OF assms] assms(2)
  by (auto simp: holon_bundle_fields property_bundle_fields relationship_bundle_fields)

lemma all_desc_from_origin:
  "all_desc_from acc rows = Inr ds \<Longrightarrow> d \<in> set ds \<Longrightarrow>
   d \<in> set acc \<or> (\<exists>r \<in> set rows. \<exists>ds'. convert_row_bundle r = Inr ds' \<and> d \<in> set ds')"
proof (induction rows arbitrary: acc)
  case Nil
  then show ?case by simp
next
  case (Cons r rows)
  from Cons.prems(1) obtain ds' where r: "convert_row_bundle r = Inr ds'"
    and rest: "all_desc_from (acc @ ds') rows = Inr ds"
    by (auto split: sum.splits)
  from Cons.IH [OF rest Cons.prems(2)] r show ?case by auto
qed

lemma descriptors_from_origin:
  "descriptors_from acc rows = Inr ds \<Longrightarrow> d \<in> set ds \<Longrightarrow>
   d \<in> set acc \<or> (\<exists>r \<in> set rows. \<exists>ds'. convert_row_single r = Inr ds' \<and> d \<in> set ds')"
proof (induction rows arbitrary: acc)
  case Nil
  then show ?case by simp
next
  case (Cons r rows)
  from Cons.prems(1) obtain ds' where r: "convert_row_single r = Inr ds'"
    and rest: "descriptors_from (acc @ ds') rows = Inr ds"
    by (auto split: sum.splits)
  from Cons.IH [OF rest Cons.prems(2)] r show ?case by auto
qed

lemma all_desc_kinds:
  assumes "all_desc rows = Inr ds" and "d \<in> set ds"
  shows "type_kind d \<in> {''HolonType'', ''PropertyType'', ''RelationshipType''}"
  using all_desc_from_origin [of "[]" rows ds d] assms convert_row_bundle_kind
  unfolding all_desc_def by fastforce

text \<open>
  Claim C9. Every descriptor that either notebook's row loop generates comes from a row
  whose \<^verbatim>\<open>TypeKind\<close> cell is, verbatim, the \<^verbatim>\<open>type_name\<close> of the descriptor's own
  \<^verbatim>\<open>described_by\<close> reference and of the \<^verbatim>\<open>described_by\<close> reference in its
  \<^verbatim>\<open>spec\<close>: the loop hands a row to a converter only when the cell equals the
  converter's kind.
\<close>

theorem described_by_is_row_type_kind:
  assumes "all_desc rows = Inr ds \<or> descriptors rows = Inr ds" and "d \<in> set ds"
  shows "\<exists>r \<in> set rows.
           (\<exists>ds'. (convert_row_bundle r = Inr ds' \<or> convert_row_single r = Inr ds') \<and> d \<in> set ds')
           \<and> r ''TypeKind'' = Some (ref_type_name (unref (wrapper_described_by d)))
           \<and> r ''TypeKind'' = Some (ref_type_name (unref (described_by (spec_header (spec d)))))"
  using assms(1)
proof
  assume "all_desc rows = Inr ds"
  with all_desc_from_origin [of "[]" rows ds d] assms(2) obtain r ds' where
    "r \<in> set rows" "convert_row_bundle r = Inr ds'" "d \<in> set ds'"
    by (auto simp: all_desc_def)
  then show ?thesis
    using convert_row_bundle_described_by [of r ds' d] by blast
next
  assume "descriptors rows = Inr ds"
  with descriptors_from_origin [of "[]" rows ds d] assms(2) obtain r ds' where
    "r \<in> set rows" "convert_row_single r = Inr ds'" "d \<in> set ds'"
    by (auto simp: descriptors_def)
  then show ?thesis
    using convert_row_single_described_by [of r ds' d] by blast
qed

theorem described_by_is_row_type_kind_witness:
  "(\<exists>ds d. all_desc example_rows = Inr ds \<and> d \<in> set ds
     \<and> type_name d = PStr ''Volunteer-MEMBER_OF->Team''
     \<and> member_of_row ''TypeKind'' = Some (ref_type_name (unref (wrapper_described_by d)))
     \<and> member_of_row ''TypeKind'' = Some (ref_type_name (unref (described_by (spec_header (spec d)))))
     \<and> ref_type_name (unref (wrapper_described_by d)) = PStr ''RelationshipType'')
   \<and> (\<exists>ds d. descriptors example_rows = Inr ds \<and> d \<in> set ds
     \<and> type_name d = PStr ''Widget''
     \<and> widget_row ''TypeKind'' = Some (ref_type_name (unref (wrapper_described_by d)))
     \<and> widget_row ''TypeKind'' = Some (ref_type_name (unref (described_by (spec_header (spec d)))))
     \<and> ref_type_name (unref (wrapper_described_by d)) = PStr ''HolonType'')"
proof (rule conjI)
  show "\<exists>ds d. all_desc example_rows = Inr ds \<and> d \<in> set ds
     \<and> type_name d = PStr ''Volunteer-MEMBER_OF->Team''
     \<and> member_of_row ''TypeKind'' = Some (ref_type_name (unref (wrapper_described_by d)))
     \<and> member_of_row ''TypeKind'' = Some (ref_type_name (unref (described_by (spec_header (spec d)))))
     \<and> ref_type_name (unref (wrapper_described_by d)) = PStr ''RelationshipType''"
  proof -
    have "\<not> isl (all_desc example_rows)" by code_simp
    then obtain ds where ds: "all_desc example_rows = Inr ds"
      by (cases "all_desc example_rows") simp_all
    have "map_sum id (\<lambda>ds. type_name (ds ! 2)) (all_desc example_rows)
            = Inr (PStr ''Volunteer-MEMBER_OF->Team'')"
      and "map_sum id length (all_desc example_rows) = Inr 5"
      by code_simp+
    with ds have d: "ds ! 2 \<in> set ds" and n: "type_name (ds ! 2) = PStr ''Volunteer-MEMBER_OF->Team''"
      by simp_all
    from described_by_is_row_type_kind [of example_rows ds "ds ! 2"] ds d
    obtain r where r: "r \<in> set example_rows"
      and k1: "r ''TypeKind'' = Some (ref_type_name (unref (wrapper_described_by (ds ! 2))))"
      and k2: "r ''TypeKind'' = Some (ref_type_name (unref (described_by (spec_header (spec (ds ! 2))))))"
      by blast
    have "map_sum id (\<lambda>ds. ref_type_name (unref (wrapper_described_by (ds ! 2)))) (all_desc example_rows)
            = Inr (PStr ''RelationshipType'')"
      by code_simp
    with ds have w: "ref_type_name (unref (wrapper_described_by (ds ! 2))) = PStr ''RelationshipType''"
      by simp
    have m: "member_of_row ''TypeKind'' = Some (PStr ''RelationshipType'')"
      by code_simp
    from k1 k2 w m have
      "member_of_row ''TypeKind'' = Some (ref_type_name (unref (wrapper_described_by (ds ! 2))))"
      "member_of_row ''TypeKind'' = Some (ref_type_name (unref (described_by (spec_header (spec (ds ! 2))))))"
      by simp_all
  with ds d n w show ?thesis by blast
  qed
next
  show "\<exists>ds d. descriptors example_rows = Inr ds \<and> d \<in> set ds
     \<and> type_name d = PStr ''Widget''
     \<and> widget_row ''TypeKind'' = Some (ref_type_name (unref (wrapper_described_by d)))
     \<and> widget_row ''TypeKind'' = Some (ref_type_name (unref (described_by (spec_header (spec d)))))
     \<and> ref_type_name (unref (wrapper_described_by d)) = PStr ''HolonType''"
  proof -
    have "\<not> isl (descriptors example_rows)" by code_simp
    then obtain ds where ds: "descriptors example_rows = Inr ds"
      by (cases "descriptors example_rows") simp_all
    have "map_sum id (\<lambda>ds. type_name (ds ! 0)) (descriptors example_rows) = Inr (PStr ''Widget'')"
      and "map_sum id length (descriptors example_rows) = Inr 5"
      by code_simp+
    with ds have d: "ds ! 0 \<in> set ds" and n: "type_name (ds ! 0) = PStr ''Widget''"
      by simp_all
    from described_by_is_row_type_kind [of example_rows ds "ds ! 0"] ds d
    obtain r where r: "r \<in> set example_rows"
      and k1: "r ''TypeKind'' = Some (ref_type_name (unref (wrapper_described_by (ds ! 0))))"
      and k2: "r ''TypeKind'' = Some (ref_type_name (unref (described_by (spec_header (spec (ds ! 0))))))"
      by blast
    have "map_sum id (\<lambda>ds. ref_type_name (unref (wrapper_described_by (ds ! 0))))
            (descriptors example_rows) = Inr (PStr ''HolonType'')"
      by code_simp
    with ds have w: "ref_type_name (unref (wrapper_described_by (ds ! 0))) = PStr ''HolonType''"
      by simp
    have m: "widget_row ''TypeKind'' = Some (PStr ''HolonType'')"
      by code_simp
    from k1 k2 w m have
      "widget_row ''TypeKind'' = Some (ref_type_name (unref (wrapper_described_by (ds ! 0))))"
      "widget_row ''TypeKind'' = Some (ref_type_name (unref (described_by (spec_header (spec (ds ! 0))))))"
      by simp_all
    with ds d n w show ?thesis by blast
  qed
qed

section \<open>Buckets\<close>

lemma map_fst_setdefault_append:
  "map fst (setdefault_append b k d) = (if k \<in> fst ` set b then map fst b else map fst b @ [k])"
  by (induction b k d rule: setdefault_append.induct) auto

lemma map_of_setdefault_append:
  "map_of (setdefault_append b k d) k' =
     (if k' = k then Some (case map_of b k of None \<Rightarrow> [d] | Some ds \<Rightarrow> ds @ [d])
      else map_of b k')"
  by (induction b k d rule: setdefault_append.induct) auto

lemma distinct_setdefault_append:
  "distinct (map fst b) \<Longrightarrow> distinct (map fst (setdefault_append b k d))"
  by (simp add: map_fst_setdefault_append)

lemma foldl_setdefault_append:
  "distinct (map fst b) \<Longrightarrow>
   distinct (map fst (foldl (\<lambda>b d. setdefault_append b (type_kind d) d) b ds))
   \<and> map_of (foldl (\<lambda>b d. setdefault_append b (type_kind d) d) b ds) k =
       (case map_of b k of
          None \<Rightarrow> if filter (\<lambda>d. type_kind d = k) ds = [] then None
                  else Some (filter (\<lambda>d. type_kind d = k) ds)
        | Some old \<Rightarrow> Some (old @ filter (\<lambda>d. type_kind d = k) ds))"
proof (induction ds arbitrary: b)
  case Nil
  then show ?case by (simp split: option.splits)
next
  case (Cons d ds)
  then show ?case
    using Cons.IH [of "setdefault_append b (type_kind d) d"]
    by (auto simp: distinct_setdefault_append map_of_setdefault_append split: option.splits)
qed

lemma distinct_descriptor_buckets: "distinct (map fst (descriptor_buckets ds))"
  using foldl_setdefault_append [of "[]" ds] by (simp add: descriptor_buckets_def)

lemma map_of_descriptor_buckets:
  "map_of (descriptor_buckets ds) k =
     (if k \<in> type_kind ` set ds then Some (filter (\<lambda>d. type_kind d = k) ds) else None)"
  using foldl_setdefault_append [of "[]" ds k]
  by (auto simp: descriptor_buckets_def filter_empty_conv)

lemma descriptor_buckets_iff:
  "(k, items) \<in> set (descriptor_buckets ds) \<longleftrightarrow>
     k \<in> type_kind ` set ds \<and> items = filter (\<lambda>d. type_kind d = k) ds"
  using map_of_eq_Some_iff [OF distinct_descriptor_buckets, of ds k items]
  by (auto simp: map_of_descriptor_buckets split: if_splits)

lemma descriptor_buckets_keys: "fst ` set (descriptor_buckets ds) = type_kind ` set ds"
proof -
  have "k \<in> fst ` set (descriptor_buckets ds) \<longleftrightarrow> k \<in> type_kind ` set ds" for k
  proof -
    have "k \<in> fst ` set (descriptor_buckets ds)
        \<longleftrightarrow> (\<exists>items. (k, items) \<in> set (descriptor_buckets ds))"
      by force
    then show ?thesis
      by (simp add: descriptor_buckets_iff)
  qed
  then show ?thesis by blast
qed

section \<open>Files\<close>

lemma map_of_write_file:
  "map_of (write_file dir n c) n' = (if n' = n then Some c else map_of dir n')"
  by (induction dir n c rule: write_file.induct) auto

lemma map_fst_write_file:
  "map fst (write_file dir n c) = (if n \<in> fst ` set dir then map fst dir else map fst dir @ [n])"
  by (induction dir n c rule: write_file.induct) auto

lemma names_write_file: "fst ` set (write_file dir n c) = insert n (fst ` set dir)"
  using arg_cong [OF map_fst_write_file [of dir n c], of set] by auto

lemma write_buckets_Cons:
  "write_buckets dir ((k, items) # bs)
     = write_buckets (write_file dir (bucket_file_name k) (BucketFile items)) bs"
  by (simp add: write_buckets_def)

lemma names_write_buckets:
  "fst ` set (write_buckets dir bs) = fst ` set dir \<union> bucket_file_name ` fst ` set bs"
proof (induction bs arbitrary: dir)
  case Nil
  then show ?case by (simp add: write_buckets_def)
next
  case (Cons b bs)
  obtain k items where b: "b = (k, items)" by (cases b)
  show ?case
    unfolding b write_buckets_Cons Cons.IH names_write_file by auto
qed

lemma map_of_write_buckets_other:
  "n \<notin> bucket_file_name ` fst ` set bs \<Longrightarrow> map_of (write_buckets dir bs) n = map_of dir n"
proof (induction bs arbitrary: dir)
  case Nil
  then show ?case by (simp add: write_buckets_def)
next
  case (Cons b bs)
  obtain k items where b: "b = (k, items)" by (cases b)
  from Cons.prems show ?case
    unfolding b write_buckets_Cons by (simp add: Cons.IH map_of_write_file)
qed

lemma map_of_write_buckets:
  assumes "distinct (map fst bs)" and "inj_on bucket_file_name (fst ` set bs)"
    and "(k, items) \<in> set bs"
  shows "map_of (write_buckets dir bs) (bucket_file_name k) = Some (BucketFile items)"
  using assms
proof (induction bs arbitrary: dir)
  case Nil
  then show ?case by simp
next
  case (Cons b bs)
  obtain k' items' where b: "b = (k', items')" by (cases b)
  show ?case
  proof (cases "(k, items) = b")
    case True
    with b Cons.prems(1) have "k \<notin> fst ` set bs" by auto
    with Cons.prems(2) b True have "bucket_file_name k \<notin> bucket_file_name ` fst ` set bs"
      by (auto simp: inj_on_def)
    then show ?thesis
      using True b by (simp add: write_buckets_Cons map_of_write_buckets_other map_of_write_file)
  next
    case False
    from Cons.prems(1) have "distinct (map fst bs)" by simp
    moreover from Cons.prems(2) have "inj_on bucket_file_name (fst ` set bs)"
      by (auto simp: inj_on_def)
    moreover from False Cons.prems(3) have "(k, items) \<in> set bs" by simp
    ultimately show ?thesis
      unfolding b write_buckets_Cons by (rule Cons.IH)
  qed
qed

lemma endswith_append: "endswith (xs @ suffix) suffix"
  by (simp add: endswith_def)

lemma bucket_file_name_json: "endswith (bucket_file_name k) ''.json''"
  using endswith_append [of "py_lower k @ ''s''" "''.json''"] by (simp add: bucket_file_name_def)

lemma bucket_file_name_not_manifest: "bucket_file_name k \<noteq> ''schema.json''"
proof
  assume "bucket_file_name k = ''schema.json''"
  then have "py_lower k @ ''s.json'' = ''schem'' @ ''a.json''"
    by (simp add: bucket_file_name_def)
  then have "''s.json'' = ''a.json''"
    by (subst (asm) append_eq_append_conv) simp_all
  then show False by simp
qed

lemma set_list_type_files:
  "set (list_type_files dir) = {n \<in> fst ` set dir. endswith n ''.json'' \<and> n \<noteq> ''schema.json''}"
  by (auto simp: list_type_files_def)

lemma bucket_file_names:
  "bucket_file_name ''HolonType'' = ''holontypes.json''"
  "bucket_file_name ''PropertyType'' = ''propertytypes.json''"
  "bucket_file_name ''RelationshipType'' = ''relationshiptypes.json''"
  by code_simp+

lemma inj_on_bucket_file_name:
  "A \<subseteq> {''HolonType'', ''PropertyType'', ''RelationshipType''} \<Longrightarrow> inj_on bucket_file_name A"
  by (rule inj_on_subset [of _ "{''HolonType'', ''PropertyType'', ''RelationshipType''}"])
     (simp_all add: bucket_file_names)

lemma run_bundle_returns:
  "all_desc rows = Inr ds \<Longrightarrow>
   run_bundle out_dir rows =
     Inr (write_file (write_buckets out_dir (descriptor_buckets ds)) ''schema.json''
            (ManifestFile (build_manifest (write_buckets out_dir (descriptor_buckets ds)))))"
  by (simp add: run_bundle_def Let_def)

lemma type_files_of_fresh_directory:
  assumes "\<forall>n \<in> fst ` set out_dir. endswith n ''.json'' \<longrightarrow> n = ''schema.json''"
  shows "set (list_type_files (write_buckets out_dir bs)) = bucket_file_name ` fst ` set bs"
  using assms
  by (auto simp: set_list_type_files names_write_buckets bucket_file_name_json
      bucket_file_name_not_manifest)

text \<open>
  Claim C8. In the bundle notebook, when the row loop has produced its descriptors and
  the output directory held no \<^verbatim>\<open>.json\<close> file other than \<^verbatim>\<open>schema.json\<close> before
  the run: the buckets have distinct keys, the bucket of a key holds exactly the
  descriptors of that \<^verbatim>\<open>type_kind\<close> in their order, so every descriptor is in the
  bucket of its \<^verbatim>\<open>type_kind\<close> and in no other; that bucket is the content of the file
  named by the lower-cased kind followed by \<^verbatim>\<open>s.json\<close>; and the manifest written to
  \<^verbatim>\<open>schema.json\<close> lists in \<^verbatim>\<open>type_files\<close> exactly the names of the bucket
  files, \<^verbatim>\<open>schema.json\<close> not among them.
\<close>

theorem bundle_grouping_complete:
  assumes "all_desc rows = Inr ds"
    and "\<forall>n \<in> fst ` set out_dir. endswith n ''.json'' \<longrightarrow> n = ''schema.json''"
  shows "\<exists>final m.
      run_bundle out_dir rows = Inr final
      \<and> distinct (map fst (descriptor_buckets ds))
      \<and> (\<forall>k items. (k, items) \<in> set (descriptor_buckets ds) \<longrightarrow>
             items = filter (\<lambda>d. type_kind d = k) ds)
      \<and> (\<forall>d \<in> set ds. \<forall>k items. (k, items) \<in> set (descriptor_buckets ds) \<longrightarrow>
             (d \<in> set items \<longleftrightarrow> k = type_kind d))
      \<and> (\<forall>d \<in> set ds. \<exists>items.
             (type_kind d, items) \<in> set (descriptor_buckets ds) \<and> d \<in> set items
             \<and> map_of final (py_lower (type_kind d) @ ''s.json'') = Some (BucketFile items))
      \<and> map_of final ''schema.json'' = Some (ManifestFile m)
      \<and> set (type_files m) = (\<lambda>k. py_lower k @ ''s.json'') ` fst ` set (descriptor_buckets ds)
      \<and> ''schema.json'' \<notin> set (type_files m)"
proof -
  let ?bs = "descriptor_buckets ds"
  let ?dir = "write_buckets out_dir ?bs"
  let ?m = "build_manifest ?dir"
  let ?final = "write_file ?dir ''schema.json'' (ManifestFile ?m)"
  have run: "run_bundle out_dir rows = Inr ?final"
    using assms(1) by (rule run_bundle_returns)
  have keys: "fst ` set ?bs \<subseteq> {''HolonType'', ''PropertyType'', ''RelationshipType''}"
    using all_desc_kinds [OF assms(1)] by (auto simp: descriptor_buckets_keys)
  have one: "\<forall>d \<in> set ds. \<forall>k items. (k, items) \<in> set ?bs \<longrightarrow> (d \<in> set items \<longleftrightarrow> k = type_kind d)"
    by (auto simp: descriptor_buckets_iff)
  have written: "\<exists>items. (type_kind d, items) \<in> set ?bs \<and> d \<in> set items
        \<and> map_of ?final (py_lower (type_kind d) @ ''s.json'') = Some (BucketFile items)"
    if d: "d \<in> set ds" for d
  proof -
    let ?items = "filter (\<lambda>d'. type_kind d' = type_kind d) ds"
    have mem: "(type_kind d, ?items) \<in> set ?bs"
      using d by (simp add: descriptor_buckets_iff)
    have "map_of ?dir (bucket_file_name (type_kind d)) = Some (BucketFile ?items)"
      using distinct_descriptor_buckets inj_on_bucket_file_name [OF keys] mem
      by (rule map_of_write_buckets)
    then have "map_of ?final (bucket_file_name (type_kind d)) = Some (BucketFile ?items)"
      by (simp add: map_of_write_file bucket_file_name_not_manifest)
    with mem d show ?thesis
      unfolding bucket_file_name_def by auto
  qed
  have files: "set (type_files ?m) = (\<lambda>k. py_lower k @ ''s.json'') ` fst ` set ?bs"
    using type_files_of_fresh_directory [OF assms(2), of ?bs]
    by (simp add: build_manifest_def bucket_file_name_def [abs_def])
  have "''schema.json'' \<notin> set (type_files ?m)"
    by (simp add: build_manifest_def set_list_type_files)
  moreover have "map_of ?final ''schema.json'' = Some (ManifestFile ?m)"
    by (simp add: map_of_write_file)
  moreover have "\<forall>k items. (k, items) \<in> set ?bs \<longrightarrow> items = filter (\<lambda>d. type_kind d = k) ds"
    by (simp add: descriptor_buckets_iff)
  ultimately show ?thesis
    using run distinct_descriptor_buckets [of ds] one written files by blast
qed

theorem bundle_grouping_complete_witness:
  "\<exists>final m.
     run_bundle stale_dir example_rows = Inr final
     \<and> map_of final ''schema.json'' = Some (ManifestFile m)
     \<and> set (type_files m) = {''holontypes.json'', ''relationshiptypes.json'', ''propertytypes.json''}"
proof -
  have "\<not> isl (all_desc example_rows)" by code_simp
  then obtain ds where ds: "all_desc example_rows = Inr ds"
    by (cases "all_desc example_rows") simp_all
  have "map_sum id (map type_kind) (all_desc example_rows)
          = Inr [''HolonType'', ''RelationshipType'', ''RelationshipType'', ''PropertyType'',
                 ''HolonType'']"
    by code_simp
  with ds have kinds: "type_kind ` set ds = {''HolonType'', ''RelationshipType'', ''PropertyType''}"
    using arg_cong [of "map type_kind ds" _ set] by auto
  have fresh: "\<forall>n \<in> fst ` set stale_dir. endswith n ''.json'' \<longrightarrow> n = ''schema.json''"
    by (simp add: stale_dir_def)
  from bundle_grouping_complete [OF ds fresh] obtain final m where
    run: "run_bundle stale_dir example_rows = Inr final"
    and manifest: "map_of final ''schema.json'' = Some (ManifestFile m)"
    and files: "set (type_files m) = (\<lambda>k. py_lower k @ ''s.json'') ` fst ` set (descriptor_buckets ds)"
    by (elim exE conjE) (rule that; assumption)
  have names: "py_lower ''HolonType'' @ ''s.json'' = ''holontypes.json''"
    "py_lower ''RelationshipType'' @ ''s.json'' = ''relationshiptypes.json''"
    "py_lower ''PropertyType'' @ ''s.json'' = ''propertytypes.json''"
    by code_simp+
  have "set (type_files m) = {''holontypes.json'', ''relationshiptypes.json'', ''propertytypes.json''}"
    unfolding files descriptor_buckets_keys kinds by (simp only: image_insert image_empty names)
  with run manifest show ?thesis by blast
qed

end
